theory Spec2Isabelle
  imports Main "HOL-Library.Word"
begin

section \<open>The published media track of the SFU (pkg/rtc/mediatrack.go)\<close>

text \<open>
  A shallow embedding of \<^verbatim>\<open>MediaTrack\<close>: the track is a record, every method takes the
  track and returns the updated one. Calls are taken one at a time (the model is the
  sequential behaviour of each method; interleavings inside one call are not modelled).
  Collaborators the track calls but does not own the code of are fields of the same record:
  what the track reads back from them (the receiver registry, the simulcast and mute flags,
  the buffers of the factory) is state, and calls whose effect the track never reads back
  (the logger, the Dynacast manager, the external quality handler, the lifecycle calls on
  the embedded receiver object) are appended to the trace \<open>calls\<close>, in program order.
\<close>

subsection \<open>Strings: strings.ToLower and strings.EqualFold\<close>

text \<open>
  Codec mime types are ASCII, and the model covers ASCII strings. On ASCII bytes Go's
  \<^verbatim>\<open>strings.ToLower\<close> maps \<open>A..Z\<close> (65..90) to \<open>a..z\<close> by adding 32 and leaves every
  other byte alone, and \<^verbatim>\<open>strings.EqualFold\<close> walks both strings and accepts two bytes
  that are equal or differ only in ASCII case.
\<close>

definition lower_char :: "char \<Rightarrow> char" where
  "lower_char c =
     (let n = (of_char c :: nat) in if 65 \<le> n \<and> n \<le> 90 then char_of (n + 32) else c)"

definition to_lower :: "string \<Rightarrow> string" where
  "to_lower s = map lower_char s"

fun equal_fold :: "string \<Rightarrow> string \<Rightarrow> bool" where
  "equal_fold [] [] = True"
| "equal_fold (a # as) (b # bs) = (lower_char a = lower_char b \<and> equal_fold as bs)"
| "equal_fold _ _ = False"

subsection \<open>Data\<close>

type_synonym uint32 = "32 word"
type_synonym uint64 = "64 word"

datatype track_type = AUDIO | VIDEO | DATA

text \<open>\<^verbatim>\<open>livekit.SimulcastCodecInfo\<close> and \<^verbatim>\<open>livekit.TrackInfo\<close>, the fields the track reads.\<close>

record simulcast_codec_info =
  MimeType :: string
  Cid :: string

record track_info =
  TrackType :: track_type
  Codecs :: "simulcast_codec_info list"

text \<open>\<^verbatim>\<open>webrtc.TrackRemote\<close>: the incoming encoding.\<close>

record track_remote =
  SSRC :: uint32
  RID :: string
  CodecMimeType :: string

text \<open>\<^verbatim>\<open>webrtc.RTPCodecParameters\<close> and what \<^verbatim>\<open>RTPReceiver.GetParameters\<close> returns.\<close>

record rtp_codec_parameters =
  ncMimeType :: string
  PayloadType :: nat

record rtp_parameters =
  ParamCodecs :: "rtp_codec_parameters list"
  HeaderExtensions :: "string list"

record simulcast_track_info =
  Mid :: string
  Rid :: string

text \<open>
  \<^verbatim>\<open>sfu.WebRTCReceiver\<close> as the track sees it: the codec of the track it was built from,
  the callbacks the track installs, the up-tracks added and the ceiling set by
  \<^verbatim>\<open>SetMaxExpectedSpatialLayer\<close>. The on-close callback keeps the mime it captured.
\<close>

record webrtc_receiver =
  wrCodecMime :: string
  wrRTCPCh :: bool
  wrOnClose :: "string option"
  wrOnStatsUpdate :: bool
  wrOnMaxLayerChange :: bool
  wrUpTracks :: "uint32 list"
  wrMaxExpectedSpatialLayer :: "int option"

text \<open>A registry entry: the receiver with the priority and mid given to \<^verbatim>\<open>SetupReceiver\<close>.\<close>

record simulcast_receiver =
  TrackReceiver :: webrtc_receiver
  Priority :: int
  srMid :: string

text \<open>\<^verbatim>\<open>buffer.Buffer\<close> and \<^verbatim>\<open>buffer.RTCPReader\<close> as the track sees them.\<close>

record buffer_obj =
  SenderReportData :: "(uint32 \<times> uint64) option"
  Bound :: bool
  FpsChangedSet :: bool
  FinalRtpStatsSet :: "string option"

record rtcp_reader =
  OnPacketSet :: bool

datatype rtcp_packet =
    SourceDescription
  | SenderReport uint32 uint64
  | OtherPacket

datatype video_quality = LOW | MEDIUM | HIGH | OFF

record subscribed_codec_quality =
  sqCodecMime :: string
  sqQuality :: video_quality

text \<open>\<^verbatim>\<open>livekit.SubscribedCodec\<close>: a codec with its qualities, each enabled or not.\<close>

type_synonym subscribed_codec = "string \<times> (video_quality \<times> bool) list"

datatype mtr_state = StateOpen | StateClosing | StateClosed

text \<open>Calls whose effect the track does not read back, in program order.\<close>

datatype call =
    Errorw string
  | Warnw string string
  | Debugw string
  | DynacastClose
  | DynacastForceUpdate
  | DynacastRestart
  | DynacastNotifyNode
  | QualityHandler "subscribed_codec list" "subscribed_codec_quality list"
  | MtrSetClosing
  | MtrClearReceiver string bool
  | MtrClearAllReceivers bool
  | MtrTryClose
  | MtrClose
  | MtrRestart
  | MtrSetMuted bool

text \<open>
  The track. \<open>SimTracks\<close>, \<open>buffers\<close> and \<open>rtcpReaders\<close> are \<^verbatim>\<open>params.SimTracks\<close> and
  the two tables of \<^verbatim>\<open>params.BufferFactory\<close>; \<open>numUpTracks\<close> and \<open>buffer\<close> are the
  track's own fields; \<open>dynacastManager\<close> says whether the pointer is non-nil and
  \<open>qualityHandler\<close> is the handler registered with it (\<open>Some f\<close>, where \<open>f\<close> says
  whether the caller's function is non-nil); the fields from \<open>trackInfo\<close> to \<open>state\<close>
  are the embedded \<^verbatim>\<open>MediaTrackReceiver\<close>.
\<close>

record media_track =
  SimTracks :: "(uint32 \<times> simulcast_track_info) list"
  buffers :: "uint32 \<rightharpoonup> buffer_obj"
  rtcpReaders :: "uint32 \<rightharpoonup> rtcp_reader"
  numUpTracks :: uint32
  buffer :: "uint32 option"
  dynacastManager :: bool
  qualityHandler :: "bool option"
  trackInfo :: track_info
  receivers :: "simulcast_receiver list"
  potentialCodecs :: "rtp_codec_parameters list"
  layerSsrcs :: "(string \<times> string \<times> uint32) list"
  simulcast :: bool
  muted :: bool
  state :: mtr_state
  calls :: "call list"

subsection \<open>The collaborators' methods\<close>

text \<open>
  Modelled from the spec: \<^verbatim>\<open>BufferFactory.GetBufferPair\<close> is not in the source. "Given a
  transport-level source identifier, returns a paired packet-reassembly buffer and a
  feedback-packet reader, or a failure indicator": each half is looked up by SSRC and is
  nil when the factory has none.
\<close>

definition GetBufferPair :: "uint32 \<Rightarrow> media_track \<Rightarrow> buffer_obj option \<times> rtcp_reader option" where
  "GetBufferPair ssrc t = (buffers t ssrc, rtcpReaders t ssrc)"

text \<open>
  Modelled from the spec: \<^verbatim>\<open>MediaTrackReceiver.Receiver\<close>, \<^verbatim>\<open>PrimaryReceiver\<close>,
  \<^verbatim>\<open>SetupReceiver\<close>, \<^verbatim>\<open>ClearReceiver\<close> and \<^verbatim>\<open>ClearAllReceivers\<close> are not in the
  source. The registry is "codec-keyed receiver storage", "keyed by codec mime type,
  case-insensitive"; "the first successfully-registered receiver for a Track becomes
  primary"; a receiver is "destroyed when its underlying network receiver reports closed".
\<close>

definition Receiver :: "string \<Rightarrow> media_track \<Rightarrow> simulcast_receiver option" where
  "Receiver mime t = find (\<lambda>r. equal_fold (wrCodecMime (TrackReceiver r)) mime) (receivers t)"

definition PrimaryReceiver :: "media_track \<Rightarrow> simulcast_receiver option" where
  "PrimaryReceiver t = (case receivers t of [] \<Rightarrow> None | r # _ \<Rightarrow> Some r)"

definition SetupReceiver :: "webrtc_receiver \<Rightarrow> int \<Rightarrow> string \<Rightarrow> media_track \<Rightarrow> media_track" where
  "SetupReceiver wr priority mid t =
     t\<lparr>receivers := receivers t @ [\<lparr>TrackReceiver = wr, Priority = priority, srMid = mid\<rparr>]\<rparr>"

definition ClearReceiver :: "string \<Rightarrow> bool \<Rightarrow> media_track \<Rightarrow> media_track" where
  "ClearReceiver mime willBeResumed t =
     t\<lparr>receivers := filter (\<lambda>r. \<not> equal_fold (wrCodecMime (TrackReceiver r)) mime) (receivers t),
       calls := calls t @ [MtrClearReceiver mime willBeResumed]\<rparr>"

definition ClearAllReceivers :: "bool \<Rightarrow> media_track \<Rightarrow> media_track" where
  "ClearAllReceivers willBeResumed t =
     t\<lparr>receivers := [], calls := calls t @ [MtrClearAllReceivers willBeResumed]\<rparr>"

text \<open>
  Modelled from the spec: \<^verbatim>\<open>SetPotentialCodecs\<close> keeps "a record of potential future
  codecs"; \<^verbatim>\<open>SetLayerSsrc\<close> adds a binding to the layer map, and the map resolves a
  (codec, RID) pair to the first SSRC bound to it ("first-binding-wins"), so the map is the
  list of bindings in the order they were made and \<open>LayerSsrc\<close> reads the first.
\<close>

definition SetPotentialCodecs :: "rtp_codec_parameters list \<Rightarrow> media_track \<Rightarrow> media_track" where
  "SetPotentialCodecs cs t = t\<lparr>potentialCodecs := cs\<rparr>"

definition SetLayerSsrc :: "string \<Rightarrow> string \<Rightarrow> uint32 \<Rightarrow> media_track \<Rightarrow> media_track" where
  "SetLayerSsrc mime rid ssrc t = t\<lparr>layerSsrcs := layerSsrcs t @ [(mime, rid, ssrc)]\<rparr>"

definition LayerSsrc :: "string \<Rightarrow> string \<Rightarrow> media_track \<Rightarrow> uint32 option" where
  "LayerSsrc mime rid t =
     map_option (\<lambda>(m, r, s). s) (find (\<lambda>(m, r, s). m = mime \<and> r = rid) (layerSsrcs t))"

text \<open>
  Modelled from the spec: the flags of the embedded receiver object (the track's 'mutable
  "simulcast" flag, mutable "closing" flag', and the mute state) with their setters.
  \<^verbatim>\<open>TryClose\<close> is the receiver-initiated close, "triggered when the last receiver reports
  closed": it closes and answers true when no receiver remains. \<open>MtrSetMutedTo\<close> and
  \<open>MtrCloseNow\<close> are the receiver object's \<^verbatim>\<open>SetMuted\<close> and \<^verbatim>\<open>Close\<close>; the track's
  own methods of these names come below.
\<close>

definition IsSimulcast :: "media_track \<Rightarrow> bool" where
  "IsSimulcast t = simulcast t"

definition SetSimulcast :: "bool \<Rightarrow> media_track \<Rightarrow> media_track" where
  "SetSimulcast b t = t\<lparr>simulcast := b\<rparr>"

definition IsMuted :: "media_track \<Rightarrow> bool" where
  "IsMuted t = muted t"

definition MtrSetMutedTo :: "bool \<Rightarrow> media_track \<Rightarrow> media_track" where
  "MtrSetMutedTo b t = t\<lparr>muted := b, calls := calls t @ [MtrSetMuted b]\<rparr>"

definition SetClosing :: "media_track \<Rightarrow> media_track" where
  "SetClosing t =
     t\<lparr>state := (if state t = StateOpen then StateClosing else state t),
       calls := calls t @ [MtrSetClosing]\<rparr>"

definition MtrCloseNow :: "media_track \<Rightarrow> media_track" where
  "MtrCloseNow t = t\<lparr>state := StateClosed, calls := calls t @ [MtrClose]\<rparr>"

definition TryClose :: "media_track \<Rightarrow> bool \<times> media_track" where
  "TryClose t =
     (let t1 = t\<lparr>calls := calls t @ [MtrTryClose]\<rparr>
      in if receivers t1 = [] then (True, t1\<lparr>state := StateClosed\<rparr>) else (False, t1))"

text \<open>Updating a buffer, a reader or the receiver that \<open>Receiver mime\<close> returns, in place.\<close>

definition upd_buffer :: "uint32 \<Rightarrow> (buffer_obj \<Rightarrow> buffer_obj) \<Rightarrow> media_track \<Rightarrow> media_track" where
  "upd_buffer ssrc f t = t\<lparr>buffers := (buffers t)(ssrc := map_option f (buffers t ssrc))\<rparr>"

definition upd_reader :: "uint32 \<Rightarrow> (rtcp_reader \<Rightarrow> rtcp_reader) \<Rightarrow> media_track \<Rightarrow> media_track" where
  "upd_reader ssrc f t = t\<lparr>rtcpReaders := (rtcpReaders t)(ssrc := map_option f (rtcpReaders t ssrc))\<rparr>"

fun upd_first :: "string \<Rightarrow> (webrtc_receiver \<Rightarrow> webrtc_receiver) \<Rightarrow> simulcast_receiver list
    \<Rightarrow> simulcast_receiver list" where
  "upd_first mime f [] = []"
| "upd_first mime f (r # rs) =
     (if equal_fold (wrCodecMime (TrackReceiver r)) mime
      then r\<lparr>TrackReceiver := f (TrackReceiver r)\<rparr> # rs
      else r # upd_first mime f rs)"

definition upd_receiver :: "string \<Rightarrow> (webrtc_receiver \<Rightarrow> webrtc_receiver) \<Rightarrow> media_track \<Rightarrow> media_track" where
  "upd_receiver mime f t = t\<lparr>receivers := upd_first mime f (receivers t)\<rparr>"

definition logc :: "call \<Rightarrow> media_track \<Rightarrow> media_track" where
  "logc c t = t\<lparr>calls := calls t @ [c]\<rparr>"

subsection \<open>NewMediaTrack\<close>

text \<open>
  Lines 72-123. The Dynacast manager exists exactly for a video track. The factory tables
  and \<open>SimTracks\<close> come with the parameters; the flags start cleared.
\<close>

definition NewMediaTrack ::
  "(uint32 \<times> simulcast_track_info) list \<Rightarrow> (uint32 \<rightharpoonup> buffer_obj) \<Rightarrow> (uint32 \<rightharpoonup> rtcp_reader)
     \<Rightarrow> track_info \<Rightarrow> media_track" where
  "NewMediaTrack sim bufs rdrs ti =
     \<lparr>SimTracks = sim, buffers = bufs, rtcpReaders = rdrs, numUpTracks = 0, buffer = None,
      dynacastManager = (TrackType ti = VIDEO), qualityHandler = None, trackInfo = ti, receivers = [],
      potentialCodecs = [], layerSsrcs = [], simulcast = False, muted = False,
      state = StateOpen, calls = []\<rparr>"

subsection \<open>AddReceiver\<close>

text \<open>
  Lines 223-241: the index of the first declared codec whose mime matches, else \<open>-1\<close>;
  with no match, \<open>0\<close> for an empty list (audio track) and for a single declared codec with
  an empty mime (older clients), else still \<open>-1\<close>.
\<close>

fun find_codec :: "string \<Rightarrow> simulcast_codec_info list \<Rightarrow> int \<Rightarrow> int" where
  "find_codec mime [] idx = -1"
| "find_codec mime (c # cs) idx =
     (if equal_fold mime (MimeType c) then idx else find_codec mime cs (idx + 1))"

definition resolve_priority :: "string \<Rightarrow> simulcast_codec_info list \<Rightarrow> int" where
  "resolve_priority mime cs =
     (let priority = find_codec mime cs 0
      in if priority < 0
         then (case cs of
                 [] \<Rightarrow> 0
               | [c] \<Rightarrow> if MimeType c = [] then 0 else priority
               | _ \<Rightarrow> priority)
         else priority)"

text \<open>
  Lines 281-290: for each declared codec, the first negotiated codec with the same mime.
\<close>

definition potential_codecs ::
  "simulcast_codec_info list \<Rightarrow> rtp_codec_parameters list \<Rightarrow> rtp_codec_parameters list" where
  "potential_codecs cs ncs =
     List.map_filter (\<lambda>c. find (\<lambda>nc. equal_fold (ncMimeType nc) (MimeType c)) ncs) cs"

text \<open>
  Lines 302-306: the layers announced for this mid in \<open>SimTracks\<close>. The Go map is a list
  of entries here, in the order the loop happens to visit them.
\<close>

fun sim_track_layers :: "string \<Rightarrow> string \<Rightarrow> (uint32 \<times> simulcast_track_info) list
    \<Rightarrow> media_track \<Rightarrow> media_track" where
  "sim_track_layers mime mid [] t = t"
| "sim_track_layers mime mid ((ssrc, info) # rest) t =
     sim_track_layers mime mid rest
       (if Mid info = mid then SetLayerSsrc mime (Rid info) ssrc t else t)"

text \<open>
  Lines 248-308, the branch for a codec with no receiver yet, once the priority is known:
  build the receiver, install its callbacks (stats and max-layer only for priority 0),
  record the potential codecs if there is no primary receiver, register it.
\<close>

definition new_receiver :: "track_remote \<Rightarrow> string \<Rightarrow> int \<Rightarrow> webrtc_receiver" where
  "new_receiver track mime priority =
     \<lparr>wrCodecMime = CodecMimeType track, wrRTCPCh = True, wrOnClose = Some mime,
      wrOnStatsUpdate = (priority = 0), wrOnMaxLayerChange = (priority = 0),
      wrUpTracks = [], wrMaxExpectedSpatialLayer = None\<rparr>"

definition setup_new_codec ::
  "rtp_parameters \<Rightarrow> track_remote \<Rightarrow> string \<Rightarrow> string \<Rightarrow> int \<Rightarrow> media_track \<Rightarrow> media_track" where
  "setup_new_codec parameters track mid mime priority t =
     (let newWR = new_receiver track mime priority;
          potential = potential_codecs (Codecs (trackInfo t)) (ParamCodecs parameters);
          t1 = (if PrimaryReceiver t = None \<and> potential \<noteq> []
                then SetPotentialCodecs potential
                       (logc (Debugw ''primary codec published, set potential codecs'') t)
                else t);
          t2 = t1\<lparr>buffer := Some (SSRC track)\<rparr>;
          t3 = SetupReceiver newWR priority mid t2
      in sim_track_layers mime mid (SimTracks t3) t3)"

text \<open>
  Lines 312-340, after the lock is released: add the up-track to the codec's receiver,
  count it, latch the simulcast flag, bind the layer when the track is simulcast, bind the
  buffer and install its two listeners.
\<close>

definition attach_up_track :: "track_remote \<Rightarrow> string \<Rightarrow> media_track \<Rightarrow> media_track" where
  "attach_up_track track mime t =
     (let t1 = upd_receiver mime (\<lambda>wr. wr\<lparr>wrUpTracks := wrUpTracks wr @ [SSRC track]\<rparr>) t;
          n = numUpTracks t1 + 1;
          t2 = t1\<lparr>numUpTracks := n\<rparr>;
          t3 = (if n > 1 \<or> RID track \<noteq> [] then SetSimulcast True t2 else t2);
          t4 = (if IsSimulcast t3 then SetLayerSsrc mime (RID track) (SSRC track) t3 else t3)
      in upd_buffer (SSRC track)
           (\<lambda>b. b\<lparr>Bound := True, FpsChangedSet := True, FinalRtpStatsSet := Some mime\<rparr>) t4)"

text \<open>
  Lines 185-342. The result is the pair of \<open>newCodec\<close> and the track. Of the RTP receiver
  the method reads only \<^verbatim>\<open>GetParameters()\<close>, which is the first argument here; the TWCC
  responder is only handed to the new receiver and is left out, as is the spatial layer of
  the RID, which only goes into the debug log and the statistics callback.
\<close>

definition AddReceiver ::
  "rtp_parameters \<Rightarrow> track_remote \<Rightarrow> string \<Rightarrow> media_track \<Rightarrow> bool \<times> media_track" where
  "AddReceiver parameters track mid t =
     (case GetBufferPair (SSRC track) t of
        (None, _) \<Rightarrow> (False, logc (Errorw ''could not retrieve buffer pair'') t)
      | (Some _, None) \<Rightarrow> (False, logc (Errorw ''could not retrieve buffer pair'') t)
      | (Some buff, Some rtcpReader) \<Rightarrow>
          (let t1 = upd_reader (SSRC track) (\<lambda>r. r\<lparr>OnPacketSet := True\<rparr>) t;
               mime = to_lower (CodecMimeType track);
               t2 = logc (Debugw ''AddReceiver'') t1
           in case Receiver mime t2 of
                Some wr \<Rightarrow> (False, attach_up_track track mime t2)
              | None \<Rightarrow>
                  (let priority = resolve_priority mime (Codecs (trackInfo t2))
                   in if priority < 0
                      then (False, logc (Warnw ''could not find codec for webrtc receiver'' mime) t2)
                      else (True, attach_up_track track mime
                                    (setup_new_codec parameters track mid mime priority t2)))))"

subsection \<open>The callbacks the track installs\<close>

text \<open>
  Lines 193-208, the reader's packet callback. \<^verbatim>\<open>rtcp.Unmarshal\<close> belongs to a library
  and is a parameter: it answers an error or the decoded packets.
\<close>

fun dispatch_packets :: "uint32 \<Rightarrow> rtcp_packet list \<Rightarrow> media_track \<Rightarrow> media_track" where
  "dispatch_packets ssrc [] t = t"
| "dispatch_packets ssrc (pkt # pkts) t =
     dispatch_packets ssrc pkts
       (case pkt of
          SourceDescription \<Rightarrow> t
        | SenderReport rtpTime ntpTime \<Rightarrow>
            upd_buffer ssrc (\<lambda>b. b\<lparr>SenderReportData := Some (rtpTime, ntpTime)\<rparr>) t
        | OtherPacket \<Rightarrow> t)"

definition OnPacket ::
  "(8 word list \<Rightarrow> string + rtcp_packet list) \<Rightarrow> uint32 \<Rightarrow> 8 word list \<Rightarrow> media_track \<Rightarrow> media_track" where
  "OnPacket Unmarshal ssrc bytes t =
     (case Unmarshal bytes of
        Inl err \<Rightarrow> logc (Errorw ''could not unmarshal RTCP'') t
      | Inr pkts \<Rightarrow> dispatch_packets ssrc pkts t)"

text \<open>Lines 261-269, the receiver's close callback, for the mime it captured.\<close>

definition OnCloseHandler :: "string \<Rightarrow> media_track \<Rightarrow> media_track" where
  "OnCloseHandler mime t =
     (case TryClose (ClearReceiver mime False (SetClosing t)) of
        (True, t1) \<Rightarrow> if dynacastManager t1 then logc DynacastClose t1 else t1
      | (False, t1) \<Rightarrow> t1)"

text \<open>
  Lines 136-147, the handler given to the Dynacast manager. \<open>f\<close> says whether the caller's
  function is non-nil. \<^verbatim>\<open>buffer.VideoQualityToSpatialLayer\<close> is not in the source and is
  a parameter.
\<close>

fun set_max_layers :: "(video_quality \<Rightarrow> track_info \<Rightarrow> int) \<Rightarrow> subscribed_codec_quality list
    \<Rightarrow> media_track \<Rightarrow> media_track" where
  "set_max_layers v2l [] t = t"
| "set_max_layers v2l (q # qs) t =
     set_max_layers v2l qs
       (case Receiver (sqCodecMime q) t of
          None \<Rightarrow> t
        | Some receiver \<Rightarrow>
            upd_receiver (sqCodecMime q)
              (\<lambda>wr. wr\<lparr>wrMaxExpectedSpatialLayer := Some (v2l (sqQuality q) (trackInfo t))\<rparr>) t)"

definition quality_handler ::
  "bool \<Rightarrow> (video_quality \<Rightarrow> track_info \<Rightarrow> int) \<Rightarrow> subscribed_codec list
     \<Rightarrow> subscribed_codec_quality list \<Rightarrow> media_track \<Rightarrow> media_track" where
  "quality_handler f v2l subscribedQualities maxSubscribedQualities t =
     set_max_layers v2l maxSubscribedQualities
       (if f \<and> \<not> IsMuted t
        then logc (QualityHandler subscribedQualities maxSubscribedQualities) t
        else t)"

subsection \<open>The other methods\<close>

text \<open>Lines 125-150.\<close>

definition OnSubscribedMaxQualityChange :: "bool \<Rightarrow> media_track \<Rightarrow> media_track" where
  "OnSubscribedMaxQualityChange f t =
     (if \<not> dynacastManager t then t else t\<lparr>qualityHandler := Some f\<rparr>)"

text \<open>Lines 152-156.\<close>

definition NotifySubscriberNodeMaxQuality :: "media_track \<Rightarrow> media_track" where
  "NotifySubscriberNodeMaxQuality t = (if dynacastManager t then logc DynacastNotifyNode t else t)"

text \<open>Lines 365-371.\<close>

definition Restart :: "media_track \<Rightarrow> media_track" where
  "Restart t =
     (let t1 = logc MtrRestart t in if dynacastManager t1 then logc DynacastRestart t1 else t1)"

text \<open>Lines 373-380.\<close>

definition Close :: "bool \<Rightarrow> media_track \<Rightarrow> media_track" where
  "Close willBeResumed t =
     (let t1 = SetClosing t;
          t2 = (if dynacastManager t1 then logc DynacastClose t1 else t1);
          t3 = ClearAllReceivers willBeResumed t2
      in MtrCloseNow t3)"

text \<open>Lines 382-391.\<close>

definition SetMuted :: "bool \<Rightarrow> media_track \<Rightarrow> media_track" where
  "SetMuted m t =
     (let t1 = (if \<not> m \<and> dynacastManager t then logc DynacastForceUpdate t else t)
      in MtrSetMutedTo m t1)"



subsection \<open>Sequences of calls\<close>

text \<open>
  What can happen to a track: a call of one of its methods, or one of its callbacks being
  run (a packet on a reader, a receiver reporting closed, the Dynacast manager reporting a
  new quality set to the registered handler).
\<close>

datatype operation =
    OpAddReceiver rtp_parameters track_remote string
  | OpOnSubscribedMaxQualityChange bool
  | OpNotifySubscriberNodeMaxQuality
  | OpRestart
  | OpClose bool
  | OpSetMuted bool
  | EvPacket uint32 "8 word list"
  | EvReceiverClosed string
  | EvQualityChange "subscribed_codec list" "subscribed_codec_quality list"

fun step :: "(8 word list \<Rightarrow> string + rtcp_packet list) \<Rightarrow> (video_quality \<Rightarrow> track_info \<Rightarrow> int)
    \<Rightarrow> operation \<Rightarrow> media_track \<Rightarrow> media_track" where
  "step U v2l (OpAddReceiver parameters track mid) t = snd (AddReceiver parameters track mid t)"
| "step U v2l (OpOnSubscribedMaxQualityChange f) t = OnSubscribedMaxQualityChange f t"
| "step U v2l OpNotifySubscriberNodeMaxQuality t = NotifySubscriberNodeMaxQuality t"
| "step U v2l OpRestart t = Restart t"
| "step U v2l (OpClose willBeResumed) t = Close willBeResumed t"
| "step U v2l (OpSetMuted m) t = SetMuted m t"
| "step U v2l (EvPacket ssrc bytes) t = OnPacket U ssrc bytes t"
| "step U v2l (EvReceiverClosed mime) t = OnCloseHandler mime t"
| "step U v2l (EvQualityChange sq mq) t =
     (case qualityHandler t of None \<Rightarrow> t | Some f \<Rightarrow> quality_handler f v2l sq mq t)"

text \<open>A sequence of \<^verbatim>\<open>AddReceiver\<close> calls: the answers, in order, and the track at the end.\<close>

fun AddReceivers :: "(rtp_parameters \<times> track_remote \<times> string) list \<Rightarrow> media_track
    \<Rightarrow> bool list \<times> media_track" where
  "AddReceivers [] t = ([], t)"
| "AddReceivers ((parameters, track, mid) # rest) t =
     (case AddReceiver parameters track mid t of
        (newCodec, t1) \<Rightarrow> (case AddReceivers rest t1 of (bs, t2) \<Rightarrow> (newCodec # bs, t2)))"

subsection \<open>Notions used to state the properties\<close>

text \<open>The bindings the loop of lines 302-306 makes: one per \<open>SimTracks\<close> entry of this mid.\<close>

definition sim_bindings :: "string \<Rightarrow> string \<Rightarrow> (uint32 \<times> simulcast_track_info) list
    \<Rightarrow> (string \<times> string \<times> uint32) list" where
  "sim_bindings mime mid sts =
     map (\<lambda>(ssrc, info). (mime, Rid info, ssrc)) (filter (\<lambda>(ssrc, info). Mid info = mid) sts)"

text \<open>
  A call gets past the two checks of \<^verbatim>\<open>AddReceiver\<close>: the factory has both halves of the
  pair, and the codec has a receiver already or its priority resolves.
\<close>

definition passes_checks :: "track_remote \<Rightarrow> media_track \<Rightarrow> bool" where
  "passes_checks track t \<longleftrightarrow>
     buffers t (SSRC track) \<noteq> None \<and> rtcpReaders t (SSRC track) \<noteq> None \<and>
     (Receiver (to_lower (CodecMimeType track)) t \<noteq> None \<or>
      0 \<le> resolve_priority (to_lower (CodecMimeType track)) (Codecs (trackInfo t)))"

text \<open>At most one receiver per mime type, compared without case.\<close>

definition one_per_mime :: "media_track \<Rightarrow> bool" where
  "one_per_mime t \<longleftrightarrow> distinct (map (\<lambda>r. to_lower (wrCodecMime (TrackReceiver r))) (receivers t))"

text \<open>A receiver is wired to the top-level stats and max-layer callbacks.\<close>

definition wired :: "simulcast_receiver \<Rightarrow> bool" where
  "wired r \<longleftrightarrow> wrOnStatsUpdate (TrackReceiver r) \<and> wrOnMaxLayerChange (TrackReceiver r)"

text \<open>
  Every registered receiver has the priority its mime resolves to, and its stats and
  max-layer callbacks are installed exactly when that priority is 0.
\<close>

definition wiring_by_priority :: "media_track \<Rightarrow> bool" where
  "wiring_by_priority t \<longleftrightarrow>
     (\<forall>r\<in>set (receivers t).
        Priority r = resolve_priority (to_lower (wrCodecMime (TrackReceiver r))) (Codecs (trackInfo t)) \<and>
        wrOnStatsUpdate (TrackReceiver r) = (Priority r = 0) \<and>
        wrOnMaxLayerChange (TrackReceiver r) = (Priority r = 0))"

text \<open>The mime of a call in a sequence of \<^verbatim>\<open>AddReceiver\<close> calls.\<close>

definition call_mime :: "rtp_parameters \<times> track_remote \<times> string \<Rightarrow> string" where
  "call_mime c = CodecMimeType (fst (snd c))"

text \<open>The condition of line 315, on the track as the call finds it.\<close>

definition latch_condition :: "track_remote \<Rightarrow> media_track \<Rightarrow> bool" where
  "latch_condition track t \<longleftrightarrow> numUpTracks t + 1 > 1 \<or> RID track \<noteq> []"

subsection \<open>Example tracks\<close>

definition ex_video_info :: track_info where
  "ex_video_info =
     \<lparr>TrackType = VIDEO,
      Codecs = [\<lparr>MimeType = ''video/vp8'', Cid = ''a''\<rparr>, \<lparr>MimeType = ''video/h264'', Cid = ''b''\<rparr>]\<rparr>"

definition ex_audio_info :: track_info where
  "ex_audio_info = \<lparr>TrackType = AUDIO, Codecs = []\<rparr>"

definition ex_buffer :: buffer_obj where
  "ex_buffer = \<lparr>SenderReportData = None, Bound = False, FpsChangedSet = False, FinalRtpStatsSet = None\<rparr>"

text \<open>A factory with pairs for SSRC 1001 and 1002, and a buffer without reader for 1003.\<close>

definition ex_buffers :: "uint32 \<rightharpoonup> buffer_obj" where
  "ex_buffers = [1001 \<mapsto> ex_buffer, 1002 \<mapsto> ex_buffer, 1003 \<mapsto> ex_buffer]"

definition ex_readers :: "uint32 \<rightharpoonup> rtcp_reader" where
  "ex_readers = [1001 \<mapsto> \<lparr>OnPacketSet = False\<rparr>, 1002 \<mapsto> \<lparr>OnPacketSet = False\<rparr>]"

definition ex_video_track :: media_track where
  "ex_video_track = NewMediaTrack [] ex_buffers ex_readers ex_video_info"

definition ex_audio_track :: media_track where
  "ex_audio_track = NewMediaTrack [] ex_buffers ex_readers ex_audio_info"

definition ex_params :: rtp_parameters where
  "ex_params = \<lparr>ParamCodecs = [], HeaderExtensions = []\<rparr>"

definition ex_encoding :: "string \<Rightarrow> string \<Rightarrow> uint32 \<Rightarrow> track_remote" where
  "ex_encoding mime rid ssrc = \<lparr>SSRC = ssrc, RID = rid, CodecMimeType = mime\<rparr>"

text \<open>A decoder for the examples: an empty payload is an error, any other is one sender report.\<close>

definition ex_unmarshal :: "8 word list \<Rightarrow> string + rtcp_packet list" where
  "ex_unmarshal bytes = (if bytes = [] then Inl ''short'' else Inr [SourceDescription, SenderReport 7 9])"

definition ex_layer :: "video_quality \<Rightarrow> track_info \<Rightarrow> int" where
  "ex_layer q ti = (case q of LOW \<Rightarrow> 0 | MEDIUM \<Rightarrow> 1 | HIGH \<Rightarrow> 2 | OFF \<Rightarrow> -1)"

section \<open>Properties\<close>

subsection \<open>Auxiliary facts\<close>

lemma lower_char_Char:
  "lower_char (Char b0 b1 b2 b3 b4 b5 b6 b7) =
     (if 65 \<le> (of_char (Char b0 b1 b2 b3 b4 b5 b6 b7) :: nat) \<and>
         (of_char (Char b0 b1 b2 b3 b4 b5 b6 b7) :: nat) \<le> 90
      then Char b0 b1 b2 b3 b4 True b6 b7 else Char b0 b1 b2 b3 b4 b5 b6 b7)"
  by (simp add: lower_char_def Let_def char_of_eq_iff)

lemma lower_char_idem: "lower_char (lower_char c) = lower_char c"
  by (cases c) (auto simp: lower_char_Char)

lemma equal_fold_iff: "equal_fold a b \<longleftrightarrow> to_lower a = to_lower b"
  by (induction a b rule: equal_fold.induct) (auto simp: to_lower_def)

lemma to_lower_idem: "to_lower (to_lower s) = to_lower s"
  by (simp add: to_lower_def lower_char_idem)

lemma equal_fold_to_lower: "equal_fold a (to_lower b) \<longleftrightarrow> equal_fold a b"
  by (simp add: equal_fold_iff to_lower_idem)

lemma equal_fold_to_lower_left: "equal_fold (to_lower a) b \<longleftrightarrow> equal_fold a b"
  by (simp add: equal_fold_iff to_lower_idem)

lemma equal_fold_sym: "equal_fold a b \<longleftrightarrow> equal_fold b a"
  by (auto simp: equal_fold_iff)

lemma equal_fold_cong_right: "equal_fold a b \<Longrightarrow> equal_fold c a \<longleftrightarrow> equal_fold c b"
  by (simp add: equal_fold_iff)

lemma find_codec_none:
  "(\<forall>c\<in>set cs. \<not> equal_fold mime (MimeType c)) \<Longrightarrow> find_codec mime cs k = -1"
  by (induction cs arbitrary: k) auto

lemma find_codec_first:
  "i < length cs \<Longrightarrow> equal_fold mime (MimeType (cs ! i)) \<Longrightarrow>
   (\<forall>j<i. \<not> equal_fold mime (MimeType (cs ! j))) \<Longrightarrow> find_codec mime cs k = k + int i"
proof (induction cs arbitrary: k i)
  case Nil
  then show ?case by simp
next
  case (Cons c cs)
  show ?case
  proof (cases i)
    case 0
    with Cons.prems show ?thesis by simp
  next
    case (Suc i')
    from Cons.prems Suc have "\<not> equal_fold mime (MimeType c)" by auto
    moreover have "find_codec mime cs (k + 1) = (k + 1) + int i'"
      using Cons.prems Suc by (intro Cons.IH) auto
    ultimately show ?thesis using Suc by simp
  qed
qed

lemma resolve_priority_match:
  "i < length cs \<Longrightarrow> equal_fold mime (MimeType (cs ! i)) \<Longrightarrow>
   (\<forall>j<i. \<not> equal_fold mime (MimeType (cs ! j))) \<Longrightarrow> resolve_priority mime cs = int i"
  by (simp add: resolve_priority_def find_codec_first)

lemma resolve_priority_no_match:
  "(\<forall>c\<in>set cs. \<not> equal_fold mime (MimeType c)) \<Longrightarrow>
   resolve_priority mime cs = (if cs = [] \<or> (\<exists>c. cs = [c] \<and> MimeType c = []) then 0 else -1)"
  by (auto simp: resolve_priority_def find_codec_none Let_def split: list.splits)


lemma Receiver_None_iff:
  "Receiver m t = None \<longleftrightarrow> (\<forall>r\<in>set (receivers t). \<not> equal_fold (wrCodecMime (TrackReceiver r)) m)"
  by (auto simp: Receiver_def find_None_iff)

lemma length_upd_first [simp]: "length (upd_first m f rs) = length rs"
  by (induction rs) auto

lemma upd_first_no_match:
  "(\<forall>r\<in>set rs. \<not> equal_fold (wrCodecMime (TrackReceiver r)) m) \<Longrightarrow> upd_first m f rs = rs"
  by (induction rs) auto

lemma upd_first_append_new:
  "(\<forall>r\<in>set rs. \<not> equal_fold (wrCodecMime (TrackReceiver r)) m) \<Longrightarrow>
   upd_first m f (rs @ [x]) = rs @ upd_first m f [x]"
  by (induction rs) auto

lemma sim_track_layers_eq:
  "sim_track_layers mime mid sts t =
     t\<lparr>layerSsrcs := layerSsrcs t @ sim_bindings mime mid sts\<rparr>"
  by (induction sts arbitrary: t) (auto simp: SetLayerSsrc_def sim_bindings_def)

lemma pre_fields [simp]:
  "receivers (logc c t) = receivers t" "trackInfo (logc c t) = trackInfo t"
  "receivers (upd_reader s f t) = receivers t" "trackInfo (upd_reader s f t) = trackInfo t"
  "Receiver m (logc c t) = Receiver m t" "Receiver m (upd_reader s f t) = Receiver m t"
  "SimTracks (logc c t) = SimTracks t" "SimTracks (upd_reader s f t) = SimTracks t"
  by (simp_all add: logc_def upd_reader_def Receiver_def)

lemma AddReceiver_cases:
  "AddReceiver parameters track mid t =
    (let mime = to_lower (CodecMimeType track);
         t2 = logc (Debugw ''AddReceiver'') (upd_reader (SSRC track) (\<lambda>r. r\<lparr>OnPacketSet := True\<rparr>) t)
     in if buffers t (SSRC track) = None \<or> rtcpReaders t (SSRC track) = None
        then (False, logc (Errorw ''could not retrieve buffer pair'') t)
        else if Receiver mime t \<noteq> None then (False, attach_up_track track mime t2)
        else if resolve_priority mime (Codecs (trackInfo t)) < 0
        then (False, logc (Warnw ''could not find codec for webrtc receiver'' mime) t2)
        else (True, attach_up_track track mime
               (setup_new_codec parameters track mid mime
                  (resolve_priority mime (Codecs (trackInfo t))) t2)))"
  by (auto simp: AddReceiver_def GetBufferPair_def Let_def split: option.splits)

lemma setup_new_codec_receivers:
  "receivers (setup_new_codec parameters track mid mime priority t) =
     receivers t @ [\<lparr>TrackReceiver = new_receiver track mime priority, Priority = priority, srMid = mid\<rparr>]"
  by (simp add: setup_new_codec_def Let_def sim_track_layers_eq SetupReceiver_def
      SetPotentialCodecs_def logc_def)

lemma attach_up_track_receivers:
  "receivers (attach_up_track track mime t) =
     upd_first mime (\<lambda>wr. wr\<lparr>wrUpTracks := wrUpTracks wr @ [SSRC track]\<rparr>) (receivers t)"
  by (simp add: attach_up_track_def Let_def upd_receiver_def upd_buffer_def SetSimulcast_def
      SetLayerSsrc_def IsSimulcast_def)

subsection \<open>The claims\<close>

text \<open>C6: without a buffer pair the call answers false and only the error log grows.\<close>

theorem AddReceiver_no_buffer_pair:
  "buffers t (SSRC track) = None \<or> rtcpReaders t (SSRC track) = None \<Longrightarrow>
   AddReceiver parameters track mid t =
     (False, t\<lparr>calls := calls t @ [Errorw ''could not retrieve buffer pair'']\<rparr>)"
  by (auto simp: AddReceiver_def GetBufferPair_def logc_def split: option.splits)

theorem AddReceiver_no_buffer_pair_witness:
  "rtcpReaders ex_video_track 1003 = None \<and>
   AddReceiver ex_params (ex_encoding ''video/VP8'' ''f'' 1003) ''0'' ex_video_track =
     (False, ex_video_track\<lparr>calls := [Errorw ''could not retrieve buffer pair'']\<rparr>)"
proof -
  have h: "buffers ex_video_track (SSRC (ex_encoding ''video/VP8'' ''f'' 1003)) = None \<or>
      rtcpReaders ex_video_track (SSRC (ex_encoding ''video/VP8'' ''f'' 1003)) = None"
    by (simp add: ex_video_track_def NewMediaTrack_def ex_readers_def ex_encoding_def)
  show ?thesis
    using AddReceiver_no_buffer_pair [OF h, of ex_params "''0''"]
    by (simp add: ex_video_track_def NewMediaTrack_def ex_readers_def)
qed

text \<open>
  C3: for a codec with no receiver yet, the priority is the index of the first declared
  codec whose mime matches without case; with no match it is 0 for an empty declared list
  and for a single declared codec with an empty mime; otherwise no receiver is created, a
  warning is logged and the call answers false.
\<close>

theorem AddReceiver_priority:
  assumes pair: "buffers t (SSRC track) \<noteq> None" "rtcpReaders t (SSRC track) \<noteq> None"
    and new: "Receiver (to_lower (CodecMimeType track)) t = None"
  shows
    "(\<forall>i. i < length (Codecs (trackInfo t)) \<and>
          equal_fold (to_lower (CodecMimeType track)) (MimeType (Codecs (trackInfo t) ! i)) \<and>
          (\<forall>j<i. \<not> equal_fold (to_lower (CodecMimeType track)) (MimeType (Codecs (trackInfo t) ! j)))
        \<longrightarrow> fst (AddReceiver parameters track mid t) \<and>
            receivers (snd (AddReceiver parameters track mid t)) =
              receivers t @
                [\<lparr>TrackReceiver = (new_receiver track (to_lower (CodecMimeType track)) (int i))
                     \<lparr>wrUpTracks := [SSRC track]\<rparr>,
                  Priority = int i, srMid = mid\<rparr>]) \<and>
     ((\<forall>c\<in>set (Codecs (trackInfo t)). \<not> equal_fold (to_lower (CodecMimeType track)) (MimeType c)) \<and>
      (Codecs (trackInfo t) = [] \<or> (\<exists>c. Codecs (trackInfo t) = [c] \<and> MimeType c = []))
        \<longrightarrow> fst (AddReceiver parameters track mid t) \<and>
            receivers (snd (AddReceiver parameters track mid t)) =
              receivers t @
                [\<lparr>TrackReceiver = (new_receiver track (to_lower (CodecMimeType track)) 0)
                     \<lparr>wrUpTracks := [SSRC track]\<rparr>,
                  Priority = 0, srMid = mid\<rparr>]) \<and>
     ((\<forall>c\<in>set (Codecs (trackInfo t)). \<not> equal_fold (to_lower (CodecMimeType track)) (MimeType c)) \<and>
      \<not> (Codecs (trackInfo t) = [] \<or> (\<exists>c. Codecs (trackInfo t) = [c] \<and> MimeType c = []))
        \<longrightarrow> AddReceiver parameters track mid t =
              (False,
               t\<lparr>rtcpReaders := (rtcpReaders t)(SSRC track :=
                     map_option (\<lambda>r. r\<lparr>OnPacketSet := True\<rparr>) (rtcpReaders t (SSRC track))),
                 calls := calls t @ [Debugw ''AddReceiver'',
                     Warnw ''could not find codec for webrtc receiver'' (to_lower (CodecMimeType track))]\<rparr>))"
proof -
  let ?mime = "to_lower (CodecMimeType track)"
  let ?cs = "Codecs (trackInfo t)"
  have nomatch: "\<forall>r\<in>set (receivers t). \<not> equal_fold (wrCodecMime (TrackReceiver r)) ?mime"
    using new by (simp add: Receiver_None_iff)
  have self: "equal_fold (CodecMimeType track) ?mime"
    by (simp add: equal_fold_iff to_lower_idem)
  have created: "fst (AddReceiver parameters track mid t) \<and>
      receivers (snd (AddReceiver parameters track mid t)) =
        receivers t @ [\<lparr>TrackReceiver = (new_receiver track ?mime p)\<lparr>wrUpTracks := [SSRC track]\<rparr>,
                        Priority = p, srMid = mid\<rparr>]"
    if "resolve_priority ?mime ?cs = p" "0 \<le> p" for p
    using that pair new nomatch self
    by (simp add: AddReceiver_cases Let_def attach_up_track_receivers setup_new_codec_receivers
        upd_first_append_new new_receiver_def)
  have failed: "AddReceiver parameters track mid t =
      (False,
       t\<lparr>rtcpReaders := (rtcpReaders t)(SSRC track :=
             map_option (\<lambda>r. r\<lparr>OnPacketSet := True\<rparr>) (rtcpReaders t (SSRC track))),
         calls := calls t @ [Debugw ''AddReceiver'',
             Warnw ''could not find codec for webrtc receiver'' ?mime]\<rparr>)"
    if "resolve_priority ?mime ?cs = -1"
    using that pair new
    by (auto simp: AddReceiver_cases Let_def logc_def upd_reader_def)
  show ?thesis
  proof (intro conjI allI impI)
    fix i
    assume h: "i < length ?cs \<and> equal_fold ?mime (MimeType (?cs ! i)) \<and>
       (\<forall>j<i. \<not> equal_fold ?mime (MimeType (?cs ! j)))"
    then have "resolve_priority ?mime ?cs = int i" by (simp add: resolve_priority_match)
    from created[OF this] show "fst (AddReceiver parameters track mid t)"
      and "receivers (snd (AddReceiver parameters track mid t)) =
              receivers t @
                [\<lparr>TrackReceiver = (new_receiver track ?mime (int i))\<lparr>wrUpTracks := [SSRC track]\<rparr>,
                  Priority = int i, srMid = mid\<rparr>]" by simp_all
  next
    assume h: "(\<forall>c\<in>set ?cs. \<not> equal_fold ?mime (MimeType c)) \<and>
      (?cs = [] \<or> (\<exists>c. ?cs = [c] \<and> MimeType c = []))"
    then have "resolve_priority ?mime ?cs = 0" by (simp add: resolve_priority_no_match)
    from created[OF this] show "fst (AddReceiver parameters track mid t)"
      and "receivers (snd (AddReceiver parameters track mid t)) =
              receivers t @
                [\<lparr>TrackReceiver = (new_receiver track ?mime 0)\<lparr>wrUpTracks := [SSRC track]\<rparr>,
                  Priority = 0, srMid = mid\<rparr>]" by simp_all
  next
    assume h: "(\<forall>c\<in>set ?cs. \<not> equal_fold ?mime (MimeType c)) \<and>
      \<not> (?cs = [] \<or> (\<exists>c. ?cs = [c] \<and> MimeType c = []))"
    then have "resolve_priority ?mime ?cs = -1" by (simp add: resolve_priority_no_match)
    from failed[OF this] show "AddReceiver parameters track mid t =
              (False,
               t\<lparr>rtcpReaders := (rtcpReaders t)(SSRC track :=
                     map_option (\<lambda>r. r\<lparr>OnPacketSet := True\<rparr>) (rtcpReaders t (SSRC track))),
                 calls := calls t @ [Debugw ''AddReceiver'',
                     Warnw ''could not find codec for webrtc receiver'' ?mime]\<rparr>)" .
  qed
qed

theorem AddReceiver_priority_witness:
  "receivers (snd (AddReceiver ex_params (ex_encoding ''video/H264'' [] 1001) ''0'' ex_video_track)) =
     [\<lparr>TrackReceiver =
         \<lparr>wrCodecMime = ''video/H264'', wrRTCPCh = True, wrOnClose = Some ''video/h264'',
          wrOnStatsUpdate = False, wrOnMaxLayerChange = False, wrUpTracks = [1001],
          wrMaxExpectedSpatialLayer = None\<rparr>,
       Priority = 1, srMid = ''0''\<rparr>] \<and>
   fst (AddReceiver ex_params (ex_encoding ''audio/opus'' [] 1001) ''0'' ex_audio_track) \<and>
   map Priority
     (receivers (snd (AddReceiver ex_params (ex_encoding ''audio/opus'' [] 1001) ''0'' ex_audio_track))) = [0] \<and>
   fst (AddReceiver ex_params (ex_encoding ''video/VP9'' [] 1001) ''0'' ex_video_track) = False \<and>
   receivers (snd (AddReceiver ex_params (ex_encoding ''video/VP9'' [] 1001) ''0'' ex_video_track)) = []"
proof -
  note ex = ex_video_track_def ex_audio_track_def NewMediaTrack_def ex_buffers_def ex_readers_def
    ex_encoding_def ex_video_info_def ex_audio_info_def Receiver_def
  have v: "buffers ex_video_track (SSRC (ex_encoding m [] 1001)) \<noteq> None"
    "rtcpReaders ex_video_track (SSRC (ex_encoding m [] 1001)) \<noteq> None"
    "Receiver (to_lower (CodecMimeType (ex_encoding m [] 1001))) ex_video_track = None" for m
    by (simp_all add: ex)
  have a: "buffers ex_audio_track (SSRC (ex_encoding m [] 1001)) \<noteq> None"
    "rtcpReaders ex_audio_track (SSRC (ex_encoding m [] 1001)) \<noteq> None"
    "Receiver (to_lower (CodecMimeType (ex_encoding m [] 1001))) ex_audio_track = None" for m
    by (simp_all add: ex)
  have "receivers (snd (AddReceiver ex_params (ex_encoding ''video/H264'' [] 1001) ''0'' ex_video_track)) =
     [\<lparr>TrackReceiver =
         \<lparr>wrCodecMime = ''video/H264'', wrRTCPCh = True, wrOnClose = Some ''video/h264'',
          wrOnStatsUpdate = False, wrOnMaxLayerChange = False, wrUpTracks = [1001],
          wrMaxExpectedSpatialLayer = None\<rparr>,
       Priority = 1, srMid = ''0''\<rparr>]"
    using AddReceiver_priority [OF v, of "''video/H264''" ex_params "''0''", THEN conjunct1, THEN spec, of 1]
    by (simp add: ex to_lower_def lower_char_Char new_receiver_def)
  moreover have "fst (AddReceiver ex_params (ex_encoding ''audio/opus'' [] 1001) ''0'' ex_audio_track) \<and>
   map Priority
     (receivers (snd (AddReceiver ex_params (ex_encoding ''audio/opus'' [] 1001) ''0'' ex_audio_track))) = [0]"
    using AddReceiver_priority [OF a, of "''audio/opus''" ex_params "''0''", THEN conjunct2, THEN conjunct1]
    by (simp add: ex)
  moreover have "fst (AddReceiver ex_params (ex_encoding ''video/VP9'' [] 1001) ''0'' ex_video_track) = False \<and>
   receivers (snd (AddReceiver ex_params (ex_encoding ''video/VP9'' [] 1001) ''0'' ex_video_track)) = []"
    using AddReceiver_priority [OF v, of "''video/VP9''" ex_params "''0''", THEN conjunct2, THEN conjunct2]
    by (simp add: ex to_lower_def lower_char_Char)
  ultimately show ?thesis by blast
qed

lemma upd_buffer_overwrite:
  "upd_buffer ssrc (\<lambda>b. b\<lparr>SenderReportData := Some d2\<rparr>)
     (upd_buffer ssrc (\<lambda>b. b\<lparr>SenderReportData := Some d1\<rparr>) t) =
   upd_buffer ssrc (\<lambda>b. b\<lparr>SenderReportData := Some d2\<rparr>) t"
  by (simp add: upd_buffer_def option.map_comp comp_def)

lemma dispatch_packets_no_sender_report:
  "(\<forall>rtp ntp. SenderReport rtp ntp \<notin> set pkts) \<Longrightarrow> dispatch_packets ssrc pkts t = t"
proof (induction pkts arbitrary: t)
  case Nil
  then show ?case by simp
next
  case (Cons p ps)
  then show ?case by (cases p) auto
qed

lemma dispatch_packets_append:
  "dispatch_packets ssrc (xs @ ys) t = dispatch_packets ssrc ys (dispatch_packets ssrc xs t)"
  by (induction xs arbitrary: t) auto

lemma dispatch_packets_shape:
  "dispatch_packets ssrc pkts t = t \<or>
   (\<exists>d. dispatch_packets ssrc pkts t = upd_buffer ssrc (\<lambda>b. b\<lparr>SenderReportData := Some d\<rparr>) t)"
proof (induction pkts arbitrary: t)
  case Nil
  then show ?case by simp
next
  case (Cons p ps)
  show ?case
  proof (cases p)
    case (SenderReport rtp ntp)
    let ?t1 = "upd_buffer ssrc (\<lambda>b. b\<lparr>SenderReportData := Some (rtp, ntp)\<rparr>) t"
    from Cons.IH[of ?t1] show ?thesis
      using SenderReport by (auto simp: upd_buffer_overwrite)
  qed (use Cons.IH[of t] in auto)
qed

text \<open>
  C9: the packet callback of a reader dispatches by type. A payload that does not unmarshal
  is logged and nothing else changes; packets other than sender reports (source
  descriptions among them) are discarded; the last sender report of the payload sets the
  buffer's sender-report data to its RTP and NTP times, and nothing else changes.
\<close>

theorem OnPacket_dispatch:
  "(Unmarshal bytes = Inl err \<longrightarrow>
      OnPacket Unmarshal ssrc bytes t = t\<lparr>calls := calls t @ [Errorw ''could not unmarshal RTCP'']\<rparr>) \<and>
   (Unmarshal bytes = Inr pkts \<and> (\<forall>r n. SenderReport r n \<notin> set pkts) \<longrightarrow>
      OnPacket Unmarshal ssrc bytes t = t) \<and>
   (Unmarshal bytes = Inr (pre @ SenderReport rtpTime ntpTime # post) \<and>
    (\<forall>r n. SenderReport r n \<notin> set post) \<longrightarrow>
      OnPacket Unmarshal ssrc bytes t =
        t\<lparr>buffers := (buffers t)(ssrc :=
             map_option (\<lambda>b. b\<lparr>SenderReportData := Some (rtpTime, ntpTime)\<rparr>) (buffers t ssrc))\<rparr>)"
proof (intro conjI impI)
  assume "Unmarshal bytes = Inl err"
  then show "OnPacket Unmarshal ssrc bytes t = t\<lparr>calls := calls t @ [Errorw ''could not unmarshal RTCP'']\<rparr>"
    by (simp add: OnPacket_def logc_def)
next
  assume "Unmarshal bytes = Inr pkts \<and> (\<forall>r n. SenderReport r n \<notin> set pkts)"
  then show "OnPacket Unmarshal ssrc bytes t = t"
    by (simp add: OnPacket_def dispatch_packets_no_sender_report)
next
  assume h: "Unmarshal bytes = Inr (pre @ SenderReport rtpTime ntpTime # post) \<and>
    (\<forall>r n. SenderReport r n \<notin> set post)"
  let ?set = "\<lambda>b. b\<lparr>SenderReportData := Some (rtpTime, ntpTime)\<rparr>"
  have "dispatch_packets ssrc (pre @ SenderReport rtpTime ntpTime # post) t =
      upd_buffer ssrc ?set (dispatch_packets ssrc pre t)"
    using h by (simp add: dispatch_packets_append dispatch_packets_no_sender_report)
  also have "\<dots> = upd_buffer ssrc ?set t"
    using dispatch_packets_shape[of ssrc pre t] by (auto simp: upd_buffer_overwrite)
  finally show "OnPacket Unmarshal ssrc bytes t =
        t\<lparr>buffers := (buffers t)(ssrc := map_option ?set (buffers t ssrc))\<rparr>"
    using h by (simp add: OnPacket_def upd_buffer_def)
qed

theorem OnPacket_dispatch_witness:
  "OnPacket ex_unmarshal 1001 [] ex_video_track =
     ex_video_track\<lparr>calls := [Errorw ''could not unmarshal RTCP'']\<rparr> \<and>
   OnPacket (\<lambda>bytes. Inr [SourceDescription, OtherPacket]) 1001 [1] ex_video_track = ex_video_track \<and>
   map_option SenderReportData (buffers (OnPacket ex_unmarshal 1001 [1] ex_video_track) 1001) =
     Some (Some (7, 9))"
proof -
  have "OnPacket ex_unmarshal 1001 [] ex_video_track =
     ex_video_track\<lparr>calls := [Errorw ''could not unmarshal RTCP'']\<rparr>"
    using OnPacket_dispatch [of ex_unmarshal "[]" "''short''" 1001 ex_video_track, THEN conjunct1]
    by (simp add: ex_unmarshal_def ex_video_track_def NewMediaTrack_def)
  moreover have "OnPacket (\<lambda>bytes. Inr [SourceDescription, OtherPacket]) 1001 [1] ex_video_track = ex_video_track"
    using OnPacket_dispatch [of "\<lambda>bytes. Inr [SourceDescription, OtherPacket]" "[1]" _
        1001 ex_video_track "[SourceDescription, OtherPacket]", THEN conjunct2, THEN conjunct1]
    by simp
  moreover have "map_option SenderReportData (buffers (OnPacket ex_unmarshal 1001 [1] ex_video_track) 1001) =
     Some (Some (7, 9))"
    using OnPacket_dispatch [of ex_unmarshal "[1]" _ 1001 ex_video_track _ "[SourceDescription]" 7 9 "[]",
        THEN conjunct2, THEN conjunct2]
    by (simp add: ex_unmarshal_def ex_video_track_def NewMediaTrack_def ex_buffers_def)
  ultimately show ?thesis by blast
qed

lemma Close_fields:
  "calls (Close w t) =
     calls t @ [MtrSetClosing] @ (if dynacastManager t then [DynacastClose] else []) @
       [MtrClearAllReceivers w, MtrClose]"
  "dynacastManager (Close w t) = dynacastManager t"
  "receivers (Close w t) = []"
  "state (Close w t) = StateClosed"
  "simulcast (Close w t) = simulcast t"
  by (simp_all add: Close_def Let_def SetClosing_def logc_def ClearAllReceivers_def MtrCloseNow_def)

lemma fold_Close_dynacast: "dynacastManager (fold Close ws t) = dynacastManager t"
  by (induction ws arbitrary: t) (simp_all add: Close_fields)

lemma fold_Close_count:
  "dynacastManager t \<Longrightarrow>
   count_list (calls (fold Close ws t)) DynacastClose = count_list (calls t) DynacastClose + length ws"
  by (induction ws arbitrary: t) (simp_all add: Close_fields)

lemma fold_Close_closed:
  "ws \<noteq> [] \<Longrightarrow> receivers (fold Close ws t) = [] \<and> state (fold Close ws t) = StateClosed"
proof (induction ws arbitrary: t rule: rev_induct)
  case Nil
  then show ?case by simp
next
  case (snoc w ws)
  then show ?case by (simp add: Close_fields)
qed

lemma count_list_append: "count_list (xs @ ys) x = count_list xs x + count_list ys x"
  by (induction xs) auto

text \<open>
  C1, as the code has it: \<^verbatim>\<open>Close\<close> has no guard of its own. On a track with a Dynacast
  manager every \<^verbatim>\<open>Close\<close> call closes the manager again, so after \<open>n\<close> calls the
  manager's close has been called \<open>n\<close> more times; the track itself is closed with no
  receivers after one call or many. The close callback of a receiver closes the manager
  only when \<^verbatim>\<open>TryClose\<close> answers true.
\<close>

theorem Close_every_call_tears_down:
  "dynacastManager t \<Longrightarrow>
   count_list (calls (fold Close ws t)) DynacastClose = count_list (calls t) DynacastClose + length ws \<and>
   (ws \<noteq> [] \<longrightarrow> receivers (fold Close ws t) = [] \<and> state (fold Close ws t) = StateClosed) \<and>
   count_list (calls (OnCloseHandler mime t)) DynacastClose =
     count_list (calls t) DynacastClose +
       (if fst (TryClose (ClearReceiver mime False (SetClosing t))) then 1 else 0)"
  by (auto simp: fold_Close_count fold_Close_closed OnCloseHandler_def TryClose_def Let_def
      ClearReceiver_def SetClosing_def logc_def count_list_append split: prod.splits)

text \<open>
  Two \<^verbatim>\<open>Close\<close> calls on a new video track: the second is not a no-op, the manager is
  closed twice and the receivers are cleared twice.
\<close>

theorem Close_twice_counterexample:
  "calls (Close False (Close False ex_video_track)) =
     [MtrSetClosing, DynacastClose, MtrClearAllReceivers False, MtrClose,
      MtrSetClosing, DynacastClose, MtrClearAllReceivers False, MtrClose]"
  by (simp add: Close_fields ex_video_track_def NewMediaTrack_def ex_video_info_def)

theorem Close_every_call_tears_down_witness:
  "dynacastManager ex_video_track \<and>
   count_list (calls (fold Close [False, True, False] ex_video_track)) DynacastClose = 3 \<and>
   state (fold Close [False, True, False] ex_video_track) = StateClosed \<and>
   count_list (calls (OnCloseHandler ''video/vp8'' ex_video_track)) DynacastClose = 1"
proof -
  have d: "dynacastManager ex_video_track"
    by (simp add: ex_video_track_def NewMediaTrack_def ex_video_info_def)
  have c: "calls ex_video_track = []" "receivers ex_video_track = []"
    by (simp_all add: ex_video_track_def NewMediaTrack_def)
  show ?thesis
    using d Close_every_call_tears_down [OF d, of "[False, True, False]" "''video/vp8''"]
    by (simp add: c TryClose_def ClearReceiver_def SetClosing_def Let_def)
qed

lemma set_max_layers_fields:
  "calls (set_max_layers v2l qs t) = calls t"
  "simulcast (set_max_layers v2l qs t) = simulcast t"
  "dynacastManager (set_max_layers v2l qs t) = dynacastManager t"
  "muted (set_max_layers v2l qs t) = muted t"
  "trackInfo (set_max_layers v2l qs t) = trackInfo t"
  by (induction qs arbitrary: t; simp add: upd_receiver_def split: option.splits)+

lemma dispatch_packets_fields:
  "simulcast (dispatch_packets ssrc pkts t) = simulcast t"
  "dynacastManager (dispatch_packets ssrc pkts t) = dynacastManager t"
  using dispatch_packets_shape[of ssrc pkts t] by (auto simp: upd_buffer_def)

lemma attach_up_track_fields:
  "simulcast (attach_up_track track mime t) = (simulcast t \<or> latch_condition track t)"
  "dynacastManager (attach_up_track track mime t) = dynacastManager t"
  "numUpTracks (attach_up_track track mime t) = numUpTracks t + 1"
  "calls (attach_up_track track mime t) = calls t"
  "trackInfo (attach_up_track track mime t) = trackInfo t"
  "layerSsrcs (attach_up_track track mime t) =
     layerSsrcs t @ (if simulcast t \<or> latch_condition track t
                     then [(mime, RID track, SSRC track)] else [])"
  by (auto simp: attach_up_track_def Let_def upd_receiver_def upd_buffer_def SetSimulcast_def
      SetLayerSsrc_def IsSimulcast_def latch_condition_def)

lemma setup_new_codec_fields:
  "simulcast (setup_new_codec parameters track mid mime priority t) = simulcast t"
  "dynacastManager (setup_new_codec parameters track mid mime priority t) = dynacastManager t"
  "numUpTracks (setup_new_codec parameters track mid mime priority t) = numUpTracks t"
  "trackInfo (setup_new_codec parameters track mid mime priority t) = trackInfo t"
  "layerSsrcs (setup_new_codec parameters track mid mime priority t) =
     layerSsrcs t @ sim_bindings mime mid (SimTracks t)"
  by (simp_all add: setup_new_codec_def Let_def sim_track_layers_eq SetupReceiver_def
      SetPotentialCodecs_def logc_def)

lemma pre_fields2 [simp]:
  "simulcast (logc c t) = simulcast t" "simulcast (upd_reader s f t) = simulcast t"
  "dynacastManager (logc c t) = dynacastManager t" "dynacastManager (upd_reader s f t) = dynacastManager t"
  "numUpTracks (logc c t) = numUpTracks t" "numUpTracks (upd_reader s f t) = numUpTracks t"
  "layerSsrcs (logc c t) = layerSsrcs t" "layerSsrcs (upd_reader s f t) = layerSsrcs t"
  "calls (logc c t) = calls t @ [c]" "calls (upd_reader s f t) = calls t"
  "latch_condition track (logc c t) = latch_condition track t"
  "latch_condition track (upd_reader s f t) = latch_condition track t"
  "muted (logc c t) = muted t"
  by (simp_all add: logc_def upd_reader_def latch_condition_def)

lemma passes_checks_iff:
  "passes_checks track t \<longleftrightarrow>
     \<not> (buffers t (SSRC track) = None \<or> rtcpReaders t (SSRC track) = None) \<and>
     (Receiver (to_lower (CodecMimeType track)) t \<noteq> None \<or>
      \<not> resolve_priority (to_lower (CodecMimeType track)) (Codecs (trackInfo t)) < 0)"
  by (auto simp: passes_checks_def)

lemma AddReceiver_simulcast:
  "simulcast (snd (AddReceiver parameters track mid t)) =
     (simulcast t \<or> (passes_checks track t \<and> latch_condition track t))"
  by (simp add: AddReceiver_cases Let_def passes_checks_iff attach_up_track_fields
      setup_new_codec_fields latch_condition_def)


lemma OnCloseHandler_fields:
  "simulcast (OnCloseHandler mime t) = simulcast t"
  "dynacastManager (OnCloseHandler mime t) = dynacastManager t"
  by (auto simp: OnCloseHandler_def TryClose_def Let_def ClearReceiver_def SetClosing_def logc_def
      split: prod.splits if_splits)

lemma step_simulcast: "simulcast t \<Longrightarrow> simulcast (step U v2l op t)"
  by (cases op)
    (auto simp: AddReceiver_simulcast OnSubscribedMaxQualityChange_def
      NotifySubscriberNodeMaxQuality_def Restart_def Let_def Close_fields SetMuted_def
      MtrSetMutedTo_def OnPacket_def dispatch_packets_fields OnCloseHandler_fields
      quality_handler_def set_max_layers_fields logc_def split: option.splits sum.splits)


lemma steps_simulcast: "simulcast t \<Longrightarrow> simulcast (fold (step U v2l) ops t)"
  by (induction ops arbitrary: t) (simp_all add: step_simulcast)


text \<open>
  C4: the simulcast flag is a latch. After an \<^verbatim>\<open>AddReceiver\<close> call the flag is set exactly
  when it was set before, or the call got past its checks and the incremented up-track
  counter exceeds 1 or the encoding has a non-empty RID; and once set, no sequence of calls
  and callbacks of the track clears it.
\<close>

theorem simulcast_latch:
  "simulcast (snd (AddReceiver parameters track mid t)) =
     (simulcast t \<or> (passes_checks track t \<and> (numUpTracks t + 1 > 1 \<or> RID track \<noteq> []))) \<and>
   (simulcast t \<longrightarrow> simulcast (fold (step Unmarshal v2l) ops t))"
  by (simp add: AddReceiver_simulcast steps_simulcast latch_condition_def)

theorem simulcast_latch_witness:
  "simulcast (snd (AddReceiver ex_params (ex_encoding ''video/vp8'' ''f'' 1001) ''0'' ex_video_track)) \<and>
   simulcast (fold (step ex_unmarshal ex_layer)
     [OpSetMuted True, OpRestart, EvPacket 1001 [1], OpAddReceiver ex_params (ex_encoding ''video/vp8'' [] 1002) ''0'',
      EvReceiverClosed ''video/vp8'', OpClose False]
     (snd (AddReceiver ex_params (ex_encoding ''video/vp8'' ''f'' 1001) ''0'' ex_video_track)))"
proof -
  let ?t = "snd (AddReceiver ex_params (ex_encoding ''video/vp8'' ''f'' 1001) ''0'' ex_video_track)"
  have p: "passes_checks (ex_encoding ''video/vp8'' ''f'' 1001) ex_video_track"
    by (simp add: passes_checks_def ex_encoding_def ex_video_track_def NewMediaTrack_def
        ex_buffers_def ex_readers_def ex_video_info_def resolve_priority_def to_lower_def
        lower_char_Char)
  have s: "simulcast ?t"
    using p simulcast_latch [of ex_params "ex_encoding ''video/vp8'' ''f'' 1001" "''0''" ex_video_track,
        THEN conjunct1]
    by (simp add: ex_encoding_def)
  show ?thesis
    using s simulcast_latch [of ex_params "ex_encoding ''video/vp8'' ''f'' 1001" "''0''" ?t ex_unmarshal
        ex_layer, THEN conjunct2]
    by blast
qed








lemma AddReceiver_layerSsrcs:
  "passes_checks track t \<Longrightarrow>
   layerSsrcs (snd (AddReceiver parameters track mid t)) =
     layerSsrcs t @
     (if Receiver (to_lower (CodecMimeType track)) t = None
      then sim_bindings (to_lower (CodecMimeType track)) mid (SimTracks t) else []) @
     (if simulcast t \<or> numUpTracks t + 1 > 1 \<or> RID track \<noteq> []
      then [(to_lower (CodecMimeType track), RID track, SSRC track)] else [])"
  by (auto simp: AddReceiver_cases Let_def passes_checks_iff attach_up_track_fields
      setup_new_codec_fields latch_condition_def)

lemma AddReceiver_fst:
  "fst (AddReceiver parameters track mid t) \<longleftrightarrow>
     passes_checks track t \<and> Receiver (to_lower (CodecMimeType track)) t = None"
  by (auto simp: AddReceiver_cases Let_def passes_checks_iff)

lemma LayerSsrc_bound:
  "(m, r, s) \<in> set (layerSsrcs t) \<Longrightarrow> LayerSsrc m r t \<noteq> None"
  by (auto simp: LayerSsrc_def find_None_iff)

text \<open>
  C7, as the code has it: a call that gets past its checks binds the encoding's
  (mime, RID) to its SSRC only when the track is simulcast after the latch step (flag
  already set, incremented counter above 1, or non-empty RID); for a new codec the
  bindings of the \<open>SimTracks\<close> entries of the same mid come first. Otherwise the call adds
  no binding for the incoming encoding.
\<close>

theorem AddReceiver_layer_binding:
  "passes_checks track t \<Longrightarrow>
   layerSsrcs (snd (AddReceiver parameters track mid t)) =
     layerSsrcs t @
     (if Receiver (to_lower (CodecMimeType track)) t = None
      then sim_bindings (to_lower (CodecMimeType track)) mid (SimTracks t) else []) @
     (if simulcast t \<or> numUpTracks t + 1 > 1 \<or> RID track \<noteq> []
      then [(to_lower (CodecMimeType track), RID track, SSRC track)] else []) \<and>
   (simulcast (snd (AddReceiver parameters track mid t)) \<longrightarrow>
      LayerSsrc (to_lower (CodecMimeType track)) (RID track)
        (snd (AddReceiver parameters track mid t)) \<noteq> None)"
proof (intro conjI impI)
  assume p: "passes_checks track t"
  then show eq: "layerSsrcs (snd (AddReceiver parameters track mid t)) =
     layerSsrcs t @
     (if Receiver (to_lower (CodecMimeType track)) t = None
      then sim_bindings (to_lower (CodecMimeType track)) mid (SimTracks t) else []) @
     (if simulcast t \<or> numUpTracks t + 1 > 1 \<or> RID track \<noteq> []
      then [(to_lower (CodecMimeType track), RID track, SSRC track)] else [])"
    by (rule AddReceiver_layerSsrcs)
  assume "simulcast (snd (AddReceiver parameters track mid t))"
  then have "simulcast t \<or> numUpTracks t + 1 > 1 \<or> RID track \<noteq> []"
    by (auto simp: AddReceiver_simulcast latch_condition_def)
  then have "(to_lower (CodecMimeType track), RID track, SSRC track)
      \<in> set (layerSsrcs (snd (AddReceiver parameters track mid t)))"
    unfolding eq by auto
  then show "LayerSsrc (to_lower (CodecMimeType track)) (RID track)
        (snd (AddReceiver parameters track mid t)) \<noteq> None"
    by (rule LayerSsrc_bound)
qed

lemma ex_audio_passes:
  "passes_checks (ex_encoding ''audio/opus'' rid 1001) ex_audio_track"
  by (simp add: passes_checks_def ex_encoding_def ex_audio_track_def NewMediaTrack_def
      ex_buffers_def ex_readers_def ex_audio_info_def resolve_priority_def)

lemma ex_audio_fields:
  "layerSsrcs ex_audio_track = []" "SimTracks ex_audio_track = []" "\<not> simulcast ex_audio_track"
  "numUpTracks ex_audio_track = 0" "receivers ex_audio_track = []"
  by (simp_all add: ex_audio_track_def NewMediaTrack_def)

text \<open>
  The first encoding of an audio track, with no RID: the call gets past its checks and
  creates the receiver, and the layer map has no binding for it.
\<close>

theorem AddReceiver_no_binding_counterexample:
  "passes_checks (ex_encoding ''audio/opus'' [] 1001) ex_audio_track \<and>
   fst (AddReceiver ex_params (ex_encoding ''audio/opus'' [] 1001) ''0'' ex_audio_track) \<and>
   LayerSsrc ''audio/opus'' []
     (snd (AddReceiver ex_params (ex_encoding ''audio/opus'' [] 1001) ''0'' ex_audio_track)) = None"
  using ex_audio_passes [of "[]"]
  by (simp add: AddReceiver_fst AddReceiver_layerSsrcs LayerSsrc_def ex_audio_fields Receiver_def
      sim_bindings_def ex_encoding_def)

theorem AddReceiver_layer_binding_witness:
  "passes_checks (ex_encoding ''audio/opus'' ''f'' 1001) ex_audio_track \<and>
   layerSsrcs (snd (AddReceiver ex_params (ex_encoding ''audio/opus'' ''f'' 1001) ''0'' ex_audio_track)) =
     [(''audio/opus'', ''f'', 1001)] \<and>
   LayerSsrc ''audio/opus'' ''f''
     (snd (AddReceiver ex_params (ex_encoding ''audio/opus'' ''f'' 1001) ''0'' ex_audio_track)) = Some 1001"
proof -
  let ?t = "snd (AddReceiver ex_params (ex_encoding ''audio/opus'' ''f'' 1001) ''0'' ex_audio_track)"
  have l: "layerSsrcs ?t = [(''audio/opus'', ''f'', 1001)]"
    using AddReceiver_layer_binding [OF ex_audio_passes [of "''f''"], of ex_params "''0''", THEN conjunct1]
    by (simp add: ex_audio_fields Receiver_def sim_bindings_def ex_encoding_def to_lower_def
        lower_char_Char)
  then have "LayerSsrc ''audio/opus'' ''f'' ?t = Some 1001"
    by (simp add: LayerSsrc_def)
  with l ex_audio_passes [of "''f''"] show ?thesis by blast
qed

lemma upd_first_keys:
  "(\<And>w. wrCodecMime (f w) = wrCodecMime w) \<Longrightarrow>
   map (\<lambda>r. g (wrCodecMime (TrackReceiver r))) (upd_first m f rs) =
   map (\<lambda>r. g (wrCodecMime (TrackReceiver r))) rs"
  by (induction rs) auto

lemma find_upd_first:
  assumes "\<And>w. wrCodecMime (f w) = wrCodecMime w"
  shows "find (\<lambda>r. equal_fold (wrCodecMime (TrackReceiver r)) m') (upd_first m f rs) =
     (if equal_fold m m'
      then map_option (\<lambda>r. r\<lparr>TrackReceiver := f (TrackReceiver r)\<rparr>)
             (find (\<lambda>r. equal_fold (wrCodecMime (TrackReceiver r)) m') rs)
      else find (\<lambda>r. equal_fold (wrCodecMime (TrackReceiver r)) m') rs)"
  using assms by (induction rs) (auto simp: equal_fold_iff)

lemma Receiver_None_keys:
  "Receiver m t = None \<longleftrightarrow>
     to_lower m \<notin> set (map (\<lambda>r. to_lower (wrCodecMime (TrackReceiver r))) (receivers t))"
  by (auto simp: Receiver_None_iff equal_fold_iff image_iff)

lemma AddReceiver_receivers:
  "receivers (snd (AddReceiver parameters track mid t)) =
     (if \<not> passes_checks track t then receivers t
      else upd_first (to_lower (CodecMimeType track))
             (\<lambda>wr. wr\<lparr>wrUpTracks := wrUpTracks wr @ [SSRC track]\<rparr>)
             (if Receiver (to_lower (CodecMimeType track)) t = None
              then receivers t @
                     [\<lparr>TrackReceiver = new_receiver track (to_lower (CodecMimeType track))
                         (resolve_priority (to_lower (CodecMimeType track)) (Codecs (trackInfo t))),
                       Priority = resolve_priority (to_lower (CodecMimeType track)) (Codecs (trackInfo t)),
                       srMid = mid\<rparr>]
              else receivers t))"
  by (auto simp: AddReceiver_cases Let_def passes_checks_iff attach_up_track_receivers
      setup_new_codec_receivers logc_def)

lemma AddReceiver_keys:
  "map (\<lambda>r. to_lower (wrCodecMime (TrackReceiver r))) (receivers (snd (AddReceiver parameters track mid t))) =
   map (\<lambda>r. to_lower (wrCodecMime (TrackReceiver r))) (receivers t) @
     (if fst (AddReceiver parameters track mid t) then [to_lower (CodecMimeType track)] else [])"
  unfolding AddReceiver_receivers AddReceiver_fst
  by (simp add: upd_first_keys new_receiver_def)

lemma AddReceiver_one_per_mime:
  "one_per_mime t \<Longrightarrow> one_per_mime (snd (AddReceiver parameters track mid t))"
  unfolding one_per_mime_def AddReceiver_keys
  by (auto simp: AddReceiver_fst Receiver_None_keys to_lower_idem)

lemma AddReceiver_trackInfo:
  "trackInfo (snd (AddReceiver parameters track mid t)) = trackInfo t"
  by (simp add: AddReceiver_cases Let_def attach_up_track_fields setup_new_codec_fields)

lemma AddReceivers_Cons:
  "AddReceivers ((parameters, track, mid) # rest) t =
     (fst (AddReceiver parameters track mid t) #
        fst (AddReceivers rest (snd (AddReceiver parameters track mid t))),
      snd (AddReceivers rest (snd (AddReceiver parameters track mid t))))"
  by (simp split: prod.splits)

lemma AddReceivers_length:
  "AddReceivers cs t = (bs, t1) \<Longrightarrow> length bs = length cs"
  by (induction cs arbitrary: t bs t1) (auto split: prod.splits)

lemma AddReceivers_one_per_mime:
  "one_per_mime t \<Longrightarrow> AddReceivers cs t = (bs, t1) \<Longrightarrow> one_per_mime t1"
proof (induction cs arbitrary: t bs t1)
  case Nil
  then show ?case by simp
next
  case (Cons c cs)
  obtain parameters track mid where c: "c = (parameters, track, mid)" by (cases c)
  from Cons.prems(2) obtain bs' where
    r: "AddReceivers cs (snd (AddReceiver parameters track mid t)) = (bs', t1)"
    unfolding c by (auto split: prod.splits)
  show ?case
    using Cons.IH [OF AddReceiver_one_per_mime [OF Cons.prems(1)] r] .
qed

lemma AddReceivers_trackInfo:
  "AddReceivers cs t = (bs, t1) \<Longrightarrow> trackInfo t1 = trackInfo t"
proof (induction cs arbitrary: t bs t1)
  case Nil
  then show ?case by simp
next
  case (Cons c cs)
  obtain parameters track mid where c: "c = (parameters, track, mid)" by (cases c)
  from Cons.prems obtain bs' where
    r: "AddReceivers cs (snd (AddReceiver parameters track mid t)) = (bs', t1)"
    unfolding c by (auto split: prod.splits)
  show ?case
    using Cons.IH [OF r] by (simp add: AddReceiver_trackInfo)
qed

lemma AddReceivers_keys_mono:
  "AddReceivers cs t = (bs, t1) \<Longrightarrow>
   k \<in> set (map (\<lambda>r. to_lower (wrCodecMime (TrackReceiver r))) (receivers t)) \<Longrightarrow>
   k \<in> set (map (\<lambda>r. to_lower (wrCodecMime (TrackReceiver r))) (receivers t1))"
proof (induction cs arbitrary: t bs t1)
  case Nil
  then show ?case by simp
next
  case (Cons c cs)
  obtain parameters track mid where c: "c = (parameters, track, mid)" by (cases c)
  from Cons.prems(1) obtain bs' where
    r: "AddReceivers cs (snd (AddReceiver parameters track mid t)) = (bs', t1)"
    unfolding c by (auto split: prod.splits)
  have "k \<in> set (map (\<lambda>r. to_lower (wrCodecMime (TrackReceiver r)))
      (receivers (snd (AddReceiver parameters track mid t))))"
    using Cons.prems(2) unfolding AddReceiver_keys by simp
  from Cons.IH [OF r this] show ?case .
qed

lemma AddReceivers_created:
  "AddReceivers cs t = (bs, t1) \<Longrightarrow> i < length cs \<Longrightarrow> bs ! i \<Longrightarrow>
   to_lower (call_mime (cs ! i)) \<in> set (map (\<lambda>r. to_lower (wrCodecMime (TrackReceiver r))) (receivers t1))"
proof (induction cs arbitrary: t bs t1 i)
  case Nil
  then show ?case by simp
next
  case (Cons c cs)
  obtain parameters track mid where c: "c = (parameters, track, mid)" by (cases c)
  let ?t = "snd (AddReceiver parameters track mid t)"
  from Cons.prems(1) obtain bs' where
    r: "AddReceivers cs ?t = (bs', t1)" and bs: "bs = fst (AddReceiver parameters track mid t) # bs'"
    unfolding c by (auto split: prod.splits)
  show ?case
  proof (cases i)
    case 0
    with Cons.prems(3) bs have "fst (AddReceiver parameters track mid t)" by simp
    then have "to_lower (CodecMimeType track) \<in> set (map (\<lambda>r. to_lower (wrCodecMime (TrackReceiver r)))
        (receivers ?t))"
      unfolding AddReceiver_keys by simp
    from AddReceivers_keys_mono [OF r this] show ?thesis
      using 0 by (simp add: c call_mime_def)
  next
    case (Suc j)
    with Cons.prems bs have "j < length cs" "bs' ! j" by simp_all
    from Cons.IH [OF r this] show ?thesis using Suc by simp
  qed
qed

text \<open>
  C2, as the code has it: on a track with at most one receiver per mime, after any
  sequence of \<^verbatim>\<open>AddReceiver\<close> calls there is still at most one receiver per mime; and once
  a call of the sequence has answered true (it created the receiver: the first call with
  that mime to get a buffer pair and a priority), every later call with the same mime,
  compared without case, answers false, creates nothing and, when it gets a buffer pair,
  adds its up-track to the receiver already registered. A call answers true exactly when
  it gets past its checks and finds no receiver for its mime.
\<close>

theorem AddReceiver_one_receiver_per_mime:
  assumes "one_per_mime t" and "AddReceivers cs t = (bs, t1)"
    and "i < length cs" and "bs ! i"
    and "equal_fold (call_mime (cs ! i)) (CodecMimeType track)"
  shows "one_per_mime t1 \<and>
    \<not> fst (AddReceiver parameters track mid t1) \<and>
    one_per_mime (snd (AddReceiver parameters track mid t1)) \<and>
    length (receivers (snd (AddReceiver parameters track mid t1))) = length (receivers t1) \<and>
    (\<exists>r. Receiver (to_lower (CodecMimeType track)) t1 = Some r \<and>
       Receiver (to_lower (CodecMimeType track)) (snd (AddReceiver parameters track mid t1)) =
         (if buffers t1 (SSRC track) \<noteq> None \<and> rtcpReaders t1 (SSRC track) \<noteq> None
          then Some (r\<lparr>TrackReceiver :=
                  (TrackReceiver r)\<lparr>wrUpTracks := wrUpTracks (TrackReceiver r) @ [SSRC track]\<rparr>\<rparr>)
          else Some r)) \<and>
    fst (AddReceiver parameters' track' mid' u) =
      (passes_checks track' u \<and> Receiver (to_lower (CodecMimeType track')) u = None)"
proof -
  let ?m = "to_lower (CodecMimeType track)"
  have inv: "one_per_mime t1"
    using assms(1,2) by (rule AddReceivers_one_per_mime)
  have "to_lower (call_mime (cs ! i)) = ?m"
    using assms(5) by (simp add: equal_fold_iff)
  with AddReceivers_created [OF assms(2,3,4)]
  have "?m \<in> set (map (\<lambda>r. to_lower (wrCodecMime (TrackReceiver r))) (receivers t1))"
    by simp
  then have ex: "Receiver ?m t1 \<noteq> None"
    by (simp add: Receiver_None_keys to_lower_idem)
  then obtain r where r: "Receiver ?m t1 = Some r" by auto
  have nf: "\<not> fst (AddReceiver parameters track mid t1)"
    using r by (simp add: AddReceiver_fst)
  have len: "length (receivers (snd (AddReceiver parameters track mid t1))) = length (receivers t1)"
    using r by (simp add: AddReceiver_receivers)
  have refl: "equal_fold ?m ?m"
    by (simp add: equal_fold_iff)
  have after: "Receiver ?m (snd (AddReceiver parameters track mid t1)) =
         (if buffers t1 (SSRC track) \<noteq> None \<and> rtcpReaders t1 (SSRC track) \<noteq> None
          then Some (r\<lparr>TrackReceiver :=
                  (TrackReceiver r)\<lparr>wrUpTracks := wrUpTracks (TrackReceiver r) @ [SSRC track]\<rparr>\<rparr>)
          else Some r)"
    using r refl
    by (auto simp: Receiver_def AddReceiver_receivers find_upd_first passes_checks_def)
  show ?thesis
    using inv nf len r after AddReceiver_one_per_mime [OF inv]
      AddReceiver_fst [of parameters' track' mid' u]
    by blast
qed

lemma ex_video_fields:
  "receivers ex_video_track = []" "trackInfo ex_video_track = ex_video_info"
  "buffers ex_video_track = ex_buffers" "rtcpReaders ex_video_track = ex_readers"
  "simulcast ex_video_track = False" "numUpTracks ex_video_track = 0"
  "SimTracks ex_video_track = []" "layerSsrcs ex_video_track = []" "calls ex_video_track = []"
  by (simp_all add: ex_video_track_def NewMediaTrack_def)

text \<open>
  Two calls with the same mime on a new video track, the first for an SSRC whose reader
  the factory does not have: the first answers false and the later one answers true.
\<close>

theorem AddReceiver_later_call_creates_counterexample:
  "fst (AddReceivers
      [(ex_params, ex_encoding ''video/vp8'' [] 1003, ''0''),
       (ex_params, ex_encoding ''video/vp8'' [] 1001, ''0'')] ex_video_track) = [False, True]"
  by (simp add: AddReceivers_Cons AddReceiver_cases Let_def ex_video_fields ex_encoding_def
      ex_buffers_def ex_readers_def logc_def Receiver_def ex_video_info_def resolve_priority_def
      to_lower_def lower_char_Char del: AddReceivers.simps(2))

theorem AddReceiver_one_receiver_per_mime_witness:
  "one_per_mime ex_video_track \<and>
   fst (AddReceivers [(ex_params, ex_encoding ''video/vp8'' [] 1001, ''0'')] ex_video_track) = [True] \<and>
   \<not> fst (AddReceiver ex_params (ex_encoding ''video/VP8'' [] 1002) ''0''
       (snd (AddReceivers [(ex_params, ex_encoding ''video/vp8'' [] 1001, ''0'')] ex_video_track))) \<and>
   length (receivers (snd (AddReceiver ex_params (ex_encoding ''video/VP8'' [] 1002) ''0''
       (snd (AddReceivers [(ex_params, ex_encoding ''video/vp8'' [] 1001, ''0'')] ex_video_track))))) = 1"
proof -
  let ?cs = "[(ex_params, ex_encoding ''video/vp8'' [] 1001, ''0'')]"
  let ?t1 = "snd (AddReceivers ?cs ex_video_track)"
  have o: "one_per_mime ex_video_track"
    by (simp add: one_per_mime_def ex_video_fields)
  have b: "fst (AddReceivers ?cs ex_video_track) = [True]"
    by (simp add: AddReceivers_Cons AddReceiver_cases Let_def ex_video_fields ex_encoding_def
        ex_buffers_def ex_readers_def logc_def Receiver_def ex_video_info_def resolve_priority_def
        to_lower_def lower_char_Char del: AddReceivers.simps(2))
  then have run: "AddReceivers ?cs ex_video_track = ([True], ?t1)"
    by (metis prod.collapse)
  have l: "length (receivers ?t1) = 1"
    by (simp add: AddReceivers_Cons AddReceiver_receivers passes_checks_def ex_video_fields
        ex_encoding_def ex_buffers_def ex_readers_def Receiver_def ex_video_info_def
        resolve_priority_def to_lower_def lower_char_Char del: AddReceivers.simps(2))
  have e: "equal_fold (call_mime (?cs ! 0)) (CodecMimeType (ex_encoding ''video/VP8'' [] 1002))"
    by (simp add: call_mime_def ex_encoding_def lower_char_Char)
  show ?thesis
    using o b l AddReceiver_one_receiver_per_mime [OF o run _ _ e,
        where parameters = ex_params and mid = "''0''" and parameters' = ex_params
          and track' = "ex_encoding ''video/vp8'' [] 1001" and mid' = "''0''" and u = ex_video_track]
    by simp
qed

lemma find_codec_range: "find_codec mime cs k = -1 \<or> k \<le> find_codec mime cs k"
proof (induction cs arbitrary: k)
  case Nil
  then show ?case by simp
next
  case (Cons c cs)
  from Cons.IH [of "k + 1"] show ?case by auto
qed

lemma resolve_priority_zero:
  assumes "cs = c # cs'" and "MimeType c \<noteq> []"
  shows "resolve_priority mime cs = 0 \<longleftrightarrow> equal_fold mime (MimeType c)"
proof (cases "equal_fold mime (MimeType c)")
  case True
  then show ?thesis using assms by (simp add: resolve_priority_def)
next
  case False
  have "find_codec mime cs' 1 = -1 \<or> 1 \<le> find_codec mime cs' 1"
    by (rule find_codec_range)
  then show ?thesis
    using False assms by (auto simp: resolve_priority_def Let_def split: list.splits)
qed

lemma set_upd_first:
  "r \<in> set (upd_first m f rs) \<Longrightarrow>
   r \<in> set rs \<or> (\<exists>r0\<in>set rs. r = r0\<lparr>TrackReceiver := f (TrackReceiver r0)\<rparr>)"
  by (induction rs) (auto split: if_splits)

lemma AddReceiver_wiring:
  assumes "wiring_by_priority t"
  shows "wiring_by_priority (snd (AddReceiver parameters track mid t))"
proof -
  let ?m = "to_lower (CodecMimeType track)"
  let ?f = "\<lambda>wr. wr\<lparr>wrUpTracks := wrUpTracks wr @ [SSRC track]\<rparr>"
  let ?P = "\<lambda>r. Priority r = resolve_priority (to_lower (wrCodecMime (TrackReceiver r))) (Codecs (trackInfo t)) \<and>
        wrOnStatsUpdate (TrackReceiver r) = (Priority r = 0) \<and>
        wrOnMaxLayerChange (TrackReceiver r) = (Priority r = 0)"
  let ?new = "\<lparr>TrackReceiver = new_receiver track ?m (resolve_priority ?m (Codecs (trackInfo t))),
      Priority = resolve_priority ?m (Codecs (trackInfo t)), srMid = mid\<rparr>"
  have old: "\<forall>r\<in>set (receivers t). ?P r"
    using assms by (simp add: wiring_by_priority_def)
  have new: "?P ?new"
    by (simp add: new_receiver_def to_lower_idem)
  have keep: "?P (r\<lparr>TrackReceiver := ?f (TrackReceiver r)\<rparr>)" if "?P r" for r
    using that by simp
  have "?P r" if "r \<in> set (upd_first ?m ?f rs)" and "\<forall>r\<in>set rs. ?P r" for r rs
    using set_upd_first [OF that(1)] that(2) keep by blast
  then have "\<forall>r\<in>set (receivers (snd (AddReceiver parameters track mid t))). ?P r"
    using old new unfolding AddReceiver_receivers by (auto split: if_splits)
  then show ?thesis
    by (simp add: wiring_by_priority_def AddReceiver_trackInfo)
qed

lemma AddReceivers_wiring:
  "wiring_by_priority t \<Longrightarrow> AddReceivers cs t = (bs, t1) \<Longrightarrow> wiring_by_priority t1"
proof (induction cs arbitrary: t bs t1)
  case Nil
  then show ?case by simp
next
  case (Cons c cs)
  obtain parameters track mid where c: "c = (parameters, track, mid)" by (cases c)
  from Cons.prems(2) obtain bs' where
    r: "AddReceivers cs (snd (AddReceiver parameters track mid t)) = (bs', t1)"
    unfolding c by (auto split: prod.splits)
  show ?case
    using Cons.IH [OF AddReceiver_wiring [OF Cons.prems(1)] r] .
qed

lemma filter_at_most_one:
  "distinct (map f xs) \<Longrightarrow> (\<forall>x\<in>set xs. P x \<longrightarrow> f x = k) \<Longrightarrow> length (filter P xs) \<le> 1"
proof (induction xs)
  case Nil
  then show ?case by simp
next
  case (Cons x xs)
  show ?case
  proof (cases "P x")
    case True
    with Cons.prems have "\<forall>y\<in>set xs. \<not> P y" by (metis distinct.simps(2) image_eqI list.set_intros(1,2) list.simps(9) set_map)
    then have "filter P xs = []" by (simp add: filter_empty_conv)
    with True show ?thesis by simp
  next
    case False
    with Cons show ?thesis by simp
  qed
qed

text \<open>
  C8, as the code has it: after any sequence of \<^verbatim>\<open>AddReceiver\<close> calls on a new track, a
  receiver has the stats and max-layer callbacks exactly when its priority is 0, the
  priority being the one its mime resolves to, whatever the order of arrival. When the
  declared codec list starts with a non-empty mime, the wired receiver is the one of the
  first declared codec, and at most one receiver is wired.
\<close>

theorem wired_iff_priority_zero:
  assumes "AddReceivers cs (NewMediaTrack sim bufs rdrs ti) = (bs, t1)"
  shows "(\<forall>r\<in>set (receivers t1).
            (wired r \<longleftrightarrow> Priority r = 0) \<and>
            Priority r = resolve_priority (to_lower (wrCodecMime (TrackReceiver r))) (Codecs ti)) \<and>
         (Codecs ti \<noteq> [] \<and> MimeType (hd (Codecs ti)) \<noteq> [] \<longrightarrow>
            (\<forall>r\<in>set (receivers t1).
               wired r \<longleftrightarrow> equal_fold (wrCodecMime (TrackReceiver r)) (MimeType (hd (Codecs ti)))) \<and>
            length (filter wired (receivers t1)) \<le> 1)"
proof -
  let ?t0 = "NewMediaTrack sim bufs rdrs ti"
  have "wiring_by_priority ?t0" "one_per_mime ?t0"
    by (simp_all add: wiring_by_priority_def one_per_mime_def NewMediaTrack_def)
  then have w: "wiring_by_priority t1" and o: "one_per_mime t1"
    using assms AddReceivers_wiring AddReceivers_one_per_mime by blast+
  have ti: "trackInfo t1 = ti"
    using AddReceivers_trackInfo [OF assms] by (simp add: NewMediaTrack_def)
  have first: "\<forall>r\<in>set (receivers t1).
            (wired r \<longleftrightarrow> Priority r = 0) \<and>
            Priority r = resolve_priority (to_lower (wrCodecMime (TrackReceiver r))) (Codecs ti)"
    using w ti by (auto simp: wiring_by_priority_def wired_def)
  have second: "(\<forall>r\<in>set (receivers t1).
               wired r \<longleftrightarrow> equal_fold (wrCodecMime (TrackReceiver r)) (MimeType (hd (Codecs ti)))) \<and>
            length (filter wired (receivers t1)) \<le> 1"
    if ne: "Codecs ti \<noteq> []" "MimeType (hd (Codecs ti)) \<noteq> []"
  proof -
    from ne obtain c cs' where cs: "Codecs ti = c # cs'" by (cases "Codecs ti") auto
    have iff: "wired r \<longleftrightarrow> equal_fold (wrCodecMime (TrackReceiver r)) (MimeType (hd (Codecs ti)))"
      if "r \<in> set (receivers t1)" for r
      using first that ne(2) resolve_priority_zero [OF cs, of "to_lower (wrCodecMime (TrackReceiver r))"]
      by (simp add: cs equal_fold_to_lower_left)
    have "length (filter wired (receivers t1)) \<le> 1"
    proof (rule filter_at_most_one)
      show "distinct (map (\<lambda>r. to_lower (wrCodecMime (TrackReceiver r))) (receivers t1))"
        using o by (simp add: one_per_mime_def)
      show "\<forall>r\<in>set (receivers t1). wired r \<longrightarrow>
          to_lower (wrCodecMime (TrackReceiver r)) = to_lower (MimeType (hd (Codecs ti)))"
        using iff by (simp add: equal_fold_iff)
    qed
    with iff show ?thesis by blast
  qed
  from first second show ?thesis by blast
qed

text \<open>
  On a video track that declares vp8 then h264, the h264 encoding arrives first: its
  receiver is the first one created and is not wired; the vp8 receiver, created second,
  is.
\<close>

theorem first_created_not_wired_counterexample:
  "fst (AddReceivers
      [(ex_params, ex_encoding ''video/h264'' [] 1001, ''0''),
       (ex_params, ex_encoding ''video/vp8'' [] 1002, ''1'')] ex_video_track) = [True, True] \<and>
   map (\<lambda>r. (wrCodecMime (TrackReceiver r), wired r))
     (receivers (snd (AddReceivers
      [(ex_params, ex_encoding ''video/h264'' [] 1001, ''0''),
       (ex_params, ex_encoding ''video/vp8'' [] 1002, ''1'')] ex_video_track))) =
     [(''video/h264'', False), (''video/vp8'', True)]"
  by (simp add: AddReceivers_Cons AddReceiver_fst AddReceiver_receivers AddReceiver_trackInfo
      passes_checks_def Receiver_def AddReceiver_cases Let_def
      ex_video_fields ex_encoding_def ex_buffers_def ex_readers_def logc_def upd_reader_def
      ex_video_info_def resolve_priority_def to_lower_def lower_char_Char new_receiver_def wired_def
      attach_up_track_def setup_new_codec_def upd_receiver_def upd_buffer_def SetSimulcast_def
      IsSimulcast_def SetLayerSsrc_def SetupReceiver_def PrimaryReceiver_def potential_codecs_def
      ex_params_def List.map_filter_simps
      del: AddReceivers.simps(2))

theorem wired_iff_priority_zero_witness:
  "fst (AddReceivers [(ex_params, ex_encoding ''video/h264'' [] 1001, ''0'')] ex_video_track) = [True] \<and>
   map wired (receivers (snd (AddReceivers
      [(ex_params, ex_encoding ''video/h264'' [] 1001, ''0'')] ex_video_track))) = [False] \<and>
   length (filter wired (receivers (snd (AddReceivers
      [(ex_params, ex_encoding ''video/h264'' [] 1001, ''0'')] ex_video_track)))) \<le> 1"
proof -
  let ?cs = "[(ex_params, ex_encoding ''video/h264'' [] 1001, ''0'')]"
  let ?t1 = "snd (AddReceivers ?cs ex_video_track)"
  have b: "fst (AddReceivers ?cs ex_video_track) = [True]"
    by (simp add: AddReceivers_Cons AddReceiver_cases Let_def ex_video_fields ex_encoding_def
        ex_buffers_def ex_readers_def logc_def Receiver_def ex_video_info_def resolve_priority_def
        to_lower_def lower_char_Char del: AddReceivers.simps(2))
  then have run: "AddReceivers ?cs (NewMediaTrack [] ex_buffers ex_readers ex_video_info) = ([True], ?t1)"
    unfolding ex_video_track_def by (metis prod.collapse)
  have m: "map (\<lambda>r. wrCodecMime (TrackReceiver r)) (receivers ?t1) = [''video/h264'']"
    by (simp add: AddReceivers_Cons AddReceiver_receivers passes_checks_def ex_video_fields
        ex_encoding_def ex_buffers_def ex_readers_def Receiver_def ex_video_info_def
        resolve_priority_def to_lower_def lower_char_Char new_receiver_def
        del: AddReceivers.simps(2))
  then obtain r where r: "receivers ?t1 = [r]" "wrCodecMime (TrackReceiver r) = ''video/h264''"
    by auto
  note T = wired_iff_priority_zero [OF run]
  have "\<not> wired r"
    using T r by (simp add: ex_video_info_def lower_char_Char resolve_priority_def to_lower_def)
  moreover have "length (filter wired (receivers ?t1)) \<le> 1"
    using T by (simp add: ex_video_info_def)
  ultimately show ?thesis using b r by simp
qed

lemma set_max_layers_receivers:
  "receivers (set_max_layers v2l qs t) =
     fold (\<lambda>q. upd_first (sqCodecMime q)
              (\<lambda>wr. wr\<lparr>wrMaxExpectedSpatialLayer := Some (v2l (sqQuality q) (trackInfo t))\<rparr>))
       qs (receivers t)"
proof (induction qs arbitrary: t)
  case Nil
  then show ?case by simp
next
  case (Cons q qs)
  show ?case
  proof (cases "Receiver (sqCodecMime q) t")
    case None
    then have "upd_first (sqCodecMime q) f (receivers t) = receivers t" for f
      by (simp add: Receiver_None_iff upd_first_no_match)
    with None show ?thesis by (simp add: Cons.IH)
  next
    case (Some r)
    then show ?thesis by (simp add: Cons.IH upd_receiver_def)
  qed
qed

lemma fold_upd_first_other:
  assumes "\<And>q w. wrCodecMime (g q w) = wrCodecMime w"
    and "\<forall>q\<in>set qs. \<not> equal_fold (sqCodecMime q) m"
  shows "find (\<lambda>r. equal_fold (wrCodecMime (TrackReceiver r)) m)
           (fold (\<lambda>q. upd_first (sqCodecMime q) (g q)) qs rs) =
         find (\<lambda>r. equal_fold (wrCodecMime (TrackReceiver r)) m) rs"
  using assms(2)
proof (induction qs arbitrary: rs)
  case Nil
  then show ?case by simp
next
  case (Cons q qs)
  then show ?case by (simp add: find_upd_first [of "g q", OF assms(1)])
qed

lemma fold_upd_first_same:
  assumes "\<And>q w. g q w = w\<lparr>wrMaxExpectedSpatialLayer := h q\<rparr>"
    and "find (\<lambda>r. equal_fold (wrCodecMime (TrackReceiver r)) m) rs = Some r"
  shows "\<exists>x. find (\<lambda>r. equal_fold (wrCodecMime (TrackReceiver r)) m)
           (fold (\<lambda>q. upd_first (sqCodecMime q) (g q)) qs rs) =
         Some (r\<lparr>TrackReceiver := (TrackReceiver r)\<lparr>wrMaxExpectedSpatialLayer := x\<rparr>\<rparr>)"
  using assms(2)
proof (induction qs arbitrary: rs r)
  case Nil
  then have "find (\<lambda>r. equal_fold (wrCodecMime (TrackReceiver r)) m) rs =
      Some (r\<lparr>TrackReceiver := (TrackReceiver r)
        \<lparr>wrMaxExpectedSpatialLayer := wrMaxExpectedSpatialLayer (TrackReceiver r)\<rparr>\<rparr>)"
    by simp
  then show ?case by (metis fold_simps(1))
next
  case (Cons q qs)
  have pres: "wrCodecMime (g q w) = wrCodecMime w" for w
    by (simp add: assms(1))
  show ?case
  proof (cases "equal_fold (sqCodecMime q) m")
    case True
    then have "find (\<lambda>r. equal_fold (wrCodecMime (TrackReceiver r)) m)
        (upd_first (sqCodecMime q) (g q) rs) =
        Some (r\<lparr>TrackReceiver := (TrackReceiver r)\<lparr>wrMaxExpectedSpatialLayer := h q\<rparr>\<rparr>)"
      using Cons.prems by (simp add: find_upd_first [of "g q", OF pres] assms(1))
    from Cons.IH [OF this] show ?thesis by simp
  next
    case False
    then have "find (\<lambda>r. equal_fold (wrCodecMime (TrackReceiver r)) m)
        (upd_first (sqCodecMime q) (g q) rs) = Some r"
      using Cons.prems by (simp add: find_upd_first [of "g q", OF pres])
    from Cons.IH [OF this] show ?thesis by simp
  qed
qed

lemma quality_handler_receivers:
  "receivers (quality_handler f v2l sq mq t) =
     fold (\<lambda>q. upd_first (sqCodecMime q)
              (\<lambda>wr. wr\<lparr>wrMaxExpectedSpatialLayer := Some (v2l (sqQuality q) (trackInfo t))\<rparr>))
       mq (receivers t)"
  by (simp add: quality_handler_def set_max_layers_receivers)

text \<open>
  C10: when the handler is given a new set of maximum qualities, the receiver found for
  each reported mime gets as its maximum expected spatial layer the layer of that codec's
  quality (of the last entry, should a mime be reported more than once), and nothing else
  of it changes; and the receivers end up the same whether the track is muted or not and
  whether a caller's function is registered or not.
\<close>

theorem quality_change_sets_receiver_ceilings:
  "(mq = pre @ q # post \<and> (\<forall>q'\<in>set post. \<not> equal_fold (sqCodecMime q') (sqCodecMime q)) \<and>
    Receiver (sqCodecMime q) t = Some r \<longrightarrow>
      Receiver (sqCodecMime q) (quality_handler f v2l sq mq t) =
        Some (r\<lparr>TrackReceiver := (TrackReceiver r)
                 \<lparr>wrMaxExpectedSpatialLayer := Some (v2l (sqQuality q) (trackInfo t))\<rparr>\<rparr>)) \<and>
   receivers (quality_handler f v2l sq mq (t\<lparr>muted := True\<rparr>)) =
     receivers (quality_handler f' v2l sq' mq (t\<lparr>muted := False\<rparr>))"
proof (intro conjI impI)
  show "receivers (quality_handler f v2l sq mq (t\<lparr>muted := True\<rparr>)) =
     receivers (quality_handler f' v2l sq' mq (t\<lparr>muted := False\<rparr>))"
    by (simp add: quality_handler_receivers)
next
  assume h: "mq = pre @ q # post \<and> (\<forall>q'\<in>set post. \<not> equal_fold (sqCodecMime q') (sqCodecMime q)) \<and>
    Receiver (sqCodecMime q) t = Some r"
  let ?g = "\<lambda>q wr. wr\<lparr>wrMaxExpectedSpatialLayer := Some (v2l (sqQuality q) (trackInfo t))\<rparr>"
  let ?find = "find (\<lambda>r. equal_fold (wrCodecMime (TrackReceiver r)) (sqCodecMime q))"
  let ?run = "\<lambda>qs. fold (\<lambda>q. upd_first (sqCodecMime q) (?g q)) qs"
  have pres: "wrCodecMime (?g q' w) = wrCodecMime w" for q' w
    by simp
  from h have "?find (receivers t) = Some r"
    by (simp add: Receiver_def)
  from fold_upd_first_same [of ?g "\<lambda>q. Some (v2l (sqQuality q) (trackInfo t))", OF _ this, of pre]
  obtain x where x: "?find (?run pre (receivers t)) =
      Some (r\<lparr>TrackReceiver := (TrackReceiver r)\<lparr>wrMaxExpectedSpatialLayer := x\<rparr>\<rparr>)"
    by auto
  have refl: "equal_fold (sqCodecMime q) (sqCodecMime q)"
    by (simp add: equal_fold_iff)
  have "?find (?run (pre @ q # post) (receivers t)) =
      ?find (upd_first (sqCodecMime q) (?g q) (?run pre (receivers t)))"
    using h fold_upd_first_other [of ?g post "sqCodecMime q"] by simp
  also have "\<dots> = Some (r\<lparr>TrackReceiver := (TrackReceiver r)
                 \<lparr>wrMaxExpectedSpatialLayer := Some (v2l (sqQuality q) (trackInfo t))\<rparr>\<rparr>)"
    using x refl by (simp add: find_upd_first [of "?g q", OF pres])
  finally show "Receiver (sqCodecMime q) (quality_handler f v2l sq mq t) =
        Some (r\<lparr>TrackReceiver := (TrackReceiver r)
                 \<lparr>wrMaxExpectedSpatialLayer := Some (v2l (sqQuality q) (trackInfo t))\<rparr>\<rparr>)"
    using h by (simp add: Receiver_def quality_handler_receivers)
qed

theorem quality_change_sets_receiver_ceilings_witness:
  "map (\<lambda>r. wrMaxExpectedSpatialLayer (TrackReceiver r))
     (receivers (quality_handler True ex_layer []
        [\<lparr>sqCodecMime = ''video/VP8'', sqQuality = LOW\<rparr>, \<lparr>sqCodecMime = ''video/vp8'', sqQuality = HIGH\<rparr>,
         \<lparr>sqCodecMime = ''video/av1'', sqQuality = MEDIUM\<rparr>]
        (SetMuted True
           (snd (AddReceiver ex_params (ex_encoding ''video/vp8'' [] 1001) ''0'' ex_video_track))))) =
   [Some 2]"
proof -
  let ?t = "SetMuted True (snd (AddReceiver ex_params (ex_encoding ''video/vp8'' [] 1001) ''0'' ex_video_track))"
  let ?mq = "[\<lparr>sqCodecMime = ''video/VP8'', sqQuality = LOW\<rparr>, \<lparr>sqCodecMime = ''video/vp8'', sqQuality = HIGH\<rparr>,
         \<lparr>sqCodecMime = ''video/av1'', sqQuality = MEDIUM\<rparr>]"
  let ?r = "\<lparr>TrackReceiver = (new_receiver (ex_encoding ''video/vp8'' [] 1001) ''video/vp8'' 0)
               \<lparr>wrUpTracks := [1001]\<rparr>, Priority = 0, srMid = ''0''\<rparr>"
  have rs: "receivers ?t = [?r]"
    by (simp add: SetMuted_def MtrSetMutedTo_def Let_def AddReceiver_receivers passes_checks_def
        ex_video_fields ex_encoding_def ex_buffers_def ex_readers_def Receiver_def ex_video_info_def
        resolve_priority_def to_lower_def lower_char_Char new_receiver_def)
  then have R: "Receiver ''video/vp8'' ?t = Some ?r"
    by (simp add: Receiver_def new_receiver_def ex_encoding_def lower_char_Char)
  have len: "length (receivers (quality_handler True ex_layer [] ?mq ?t)) = 1"
    by (simp add: quality_handler_receivers rs)
  have "Receiver ''video/vp8'' (quality_handler True ex_layer [] ?mq ?t) =
      Some (?r\<lparr>TrackReceiver := (TrackReceiver ?r)
                 \<lparr>wrMaxExpectedSpatialLayer := Some (ex_layer HIGH (trackInfo ?t))\<rparr>\<rparr>)"
    using R quality_change_sets_receiver_ceilings [of ?mq "[\<lparr>sqCodecMime = ''video/VP8'', sqQuality = LOW\<rparr>]"
        "\<lparr>sqCodecMime = ''video/vp8'', sqQuality = HIGH\<rparr>" "[\<lparr>sqCodecMime = ''video/av1'', sqQuality = MEDIUM\<rparr>]"
        ?t ?r True ex_layer "[]", THEN conjunct1]
    by (simp add: lower_char_Char)
  then have "find (\<lambda>r. equal_fold (wrCodecMime (TrackReceiver r)) ''video/vp8'')
      (receivers (quality_handler True ex_layer [] ?mq ?t)) =
      Some (?r\<lparr>TrackReceiver := (TrackReceiver ?r)\<lparr>wrMaxExpectedSpatialLayer := Some 2\<rparr>\<rparr>)"
    by (simp add: Receiver_def ex_layer_def)
  with len show ?thesis
    by (cases "receivers (quality_handler True ex_layer [] ?mq ?t)") (auto split: if_splits)
qed

end
